theory Spec2Isabelle
  imports Complex_Main "HOL-Library.Log_Nat"
begin

text \<open>
  A shallow embedding of the data-access core of the product catalog app: the error
  taxonomy of \<^verbatim>\<open>errorUtils\<close>, the retry loop and the circuit breaker of
  \<^verbatim>\<open>gracefulDegradation\<close>, \<^verbatim>\<open>ApiService\<close> with its cache and its payload validation,
  \<^verbatim>\<open>StorageService\<close>, and the effect of \<^verbatim>\<open>AppContext\<close> that persists the favorites.
  An asynchronous function is a function from the world to its outcome, \<open>Inl\<close> for a
  rejection and \<open>Inr\<close> for the resolved value, and the world after it.
\<close>

section \<open>JavaScript values used by the data-access core\<close>

subsection \<open>Strings\<close>

text \<open>
  Strings are character lists, of code units below 256. The helpers below are the three
  \<^verbatim>\<open>String.prototype\<close> methods the services call, \<^verbatim>\<open>toLowerCase\<close>, \<^verbatim>\<open>includes\<close> and
  \<^verbatim>\<open>trim\<close>, on such strings (the letters A to Z and the capital letters of Latin-1 have
  a lower case; white space is the tab, the line terminators, the space and the no-break
  space), and \<open>decimal\<close>, the decimal digits of a natural number, for the status in
  \<^verbatim>\<open>`HTTP ${response.status}: ${response.statusText}`\<close>.
\<close>

definition lower_char :: "char \<Rightarrow> char" where
  "lower_char c =
     (let n = (of_char c :: nat) in
      if (65 \<le> n \<and> n \<le> 90) \<or> (192 \<le> n \<and> n \<le> 222 \<and> n \<noteq> 215)
      then char_of (n + 32) else c)"

definition toLowerCase :: "string \<Rightarrow> string" where
  "toLowerCase s = map lower_char s"

fun str_includes :: "string \<Rightarrow> string \<Rightarrow> bool" where
  "str_includes [] sub = (sub = [])"
| "str_includes (c # cs) sub = (take (length sub) (c # cs) = sub \<or> str_includes cs sub)"

definition is_space :: "char \<Rightarrow> bool" where
  "is_space c = ((of_char c :: nat) \<in> {9, 10, 11, 12, 13, 32, 160})"

definition trim :: "string \<Rightarrow> string" where
  "trim s = rev (dropWhile is_space (rev (dropWhile is_space s)))"

function decimal :: "nat \<Rightarrow> string" where
  "decimal n =
     (if n < 10 then [char_of (48 + n)]
      else decimal (n div 10) @ [char_of (48 + n mod 10)])"
  by pat_completeness auto
termination
  by (relation "measure id") auto

subsection \<open>Numbers\<close>

text \<open>
  A JavaScript number is an IEEE 754 double: a finite value, one of the two infinities, or
  NaN (the sign of zero is not kept). A finite value is kept as the rational it denotes, so
  comparison is exact.
\<close>

datatype number = Fin rat | PosInf | NegInf | NaN

text \<open>
  The result of an arithmetic operation is the exact result rounded to the nearest double,
  ties to the even mantissa, and to an infinity from \<open>2 ^ 1024\<close> on: \<open>to_double\<close>.
  \<open>binade x\<close> is the exponent \<open>e\<close> with \<open>2 ^ e \<le> x < 2 ^ (e + 1)\<close>; a double of
  that size is a multiple of \<open>2 ^ (e - 52)\<close>, and of \<open>2 ^ (- 1074)\<close> below \<open>2 ^ (- 1022)\<close>.
\<close>

definition binade :: "rat \<Rightarrow> int" where
  "binade x =
     (let e0 = bitlen (fst (quotient_of x)) - bitlen (snd (quotient_of x))
      in if 2 powi e0 \<le> x then e0 else e0 - 1)"

definition round_half_even :: "rat \<Rightarrow> int" where
  "round_half_even x =
     (let f = \<lfloor>x\<rfloor>; d = x - of_int f
      in if d < 1 / 2 then f else if 1 / 2 < d then f + 1 else if even f then f else f + 1)"

definition to_double :: "rat \<Rightarrow> number" where
  "to_double x =
     (if x = 0 then Fin 0
      else
        (let ulp = 2 powi (max (binade \<bar>x\<bar>) (- 1022) - 52);
             y = of_int (round_half_even (\<bar>x\<bar> / ulp)) * ulp
         in if 2 powi 1024 \<le> y then (if 0 < x then PosInf else NegInf)
            else Fin (if 0 < x then y else - y)))"

fun js_lt :: "number \<Rightarrow> number \<Rightarrow> bool" where
  "js_lt NaN _ = False"
| "js_lt _ NaN = False"
| "js_lt (Fin a) (Fin b) = (a < b)"
| "js_lt (Fin a) PosInf = True"
| "js_lt (Fin a) NegInf = False"
| "js_lt PosInf _ = False"
| "js_lt NegInf NegInf = False"
| "js_lt NegInf _ = True"

definition js_gt :: "number \<Rightarrow> number \<Rightarrow> bool" where
  "js_gt a b = js_lt b a"

definition js_le :: "number \<Rightarrow> number \<Rightarrow> bool" where
  "js_le a b = (a \<noteq> NaN \<and> b \<noteq> NaN \<and> \<not> js_lt b a)"

definition isNaN :: "number \<Rightarrow> bool" where
  "isNaN n = (n = NaN)"

text \<open>\<^verbatim>\<open>a !== b\<close> on numbers: NaN differs from everything, itself included.\<close>

definition strict_neq :: "number \<Rightarrow> number \<Rightarrow> bool" where
  "strict_neq a b = (a = NaN \<or> b = NaN \<or> a \<noteq> b)"

text \<open>
  \<^verbatim>\<open>x * k\<close> and \<^verbatim>\<open>x / k\<close> for a positive finite constant \<open>k\<close> (100 and 10 in the code).
  \<^verbatim>\<open>Math.round\<close> and \<^verbatim>\<open>Math.floor\<close> of a double are integers that are doubles again, so
  they do not round a second time.
\<close>

fun times :: "number \<Rightarrow> rat \<Rightarrow> number" where
  "times (Fin r) k = to_double (r * k)"
| "times n k = n"

fun divided_by :: "number \<Rightarrow> rat \<Rightarrow> number" where
  "divided_by (Fin r) k = to_double (r / k)"
| "divided_by n k = n"

fun Math_round :: "number \<Rightarrow> number" where
  "Math_round (Fin r) = Fin (of_int \<lfloor>r + 1 / 2\<rfloor>)"
| "Math_round n = n"

fun Math_floor :: "number \<Rightarrow> number" where
  "Math_floor (Fin r) = Fin (of_int \<lfloor>r\<rfloor>)"
| "Math_floor n = n"

subsection \<open>JSON values\<close>

datatype json =
    JNull
  | JBool bool
  | JNumber number
  | JString string
  | JArray "json list"
  | JObject "(string \<times> json) list"

text \<open>
  A property read \<^verbatim>\<open>value.key\<close> for the keys the services read: an object yields the
  stored member, everything else (arrays included) yields \<^verbatim>\<open>undefined\<close>, which is
  \<open>None\<close>. The members of an object are listed with distinct keys.
\<close>

fun get_prop :: "json \<Rightarrow> string \<Rightarrow> json option" where
  "get_prop (JObject kvs) k = map_of kvs k"
| "get_prop _ k = None"

fun typeof :: "json option \<Rightarrow> string" where
  "typeof None = ''undefined''"
| "typeof (Some JNull) = ''object''"
| "typeof (Some (JBool b)) = ''boolean''"
| "typeof (Some (JNumber n)) = ''number''"
| "typeof (Some (JString s)) = ''string''"
| "typeof (Some (JArray xs)) = ''object''"
| "typeof (Some (JObject kvs)) = ''object''"

fun falsy :: "json option \<Rightarrow> bool" where
  "falsy None = True"
| "falsy (Some JNull) = True"
| "falsy (Some (JBool b)) = (\<not> b)"
| "falsy (Some (JNumber n)) = (n = Fin 0 \<or> n = NaN)"
| "falsy (Some (JString s)) = (s = [])"
| "falsy (Some (JArray xs)) = False"
| "falsy (Some (JObject kvs)) = False"

text \<open>The casts \<^verbatim>\<open>as number\<close>, \<^verbatim>\<open>as string\<close>, used only behind a \<^verbatim>\<open>typeof\<close> test.\<close>

fun as_number :: "json option \<Rightarrow> number" where
  "as_number (Some (JNumber n)) = n"
| "as_number _ = NaN"

fun as_string :: "json option \<Rightarrow> string" where
  "as_string (Some (JString s)) = s"
| "as_string _ = []"

fun as_value :: "json option \<Rightarrow> json" where
  "as_value (Some v) = v"
| "as_value None = JNull"

section \<open>errorUtils: the error taxonomy\<close>

datatype error_type = Network | Storage | Validation | Unknown

record AppError =
  message :: string
  code :: "string option"
  type :: error_type
  recoverable :: bool
  userMessage :: string

record ApiError =
  api_message :: string
  status :: "int option"
  api_code :: "string option"

text \<open>
  What a \<^verbatim>\<open>throw\<close> can carry in this code base: an \<^verbatim>\<open>Error\<close> instance with a message,
  an \<^verbatim>\<open>Error\<close> instance that also has the fields of an AppError, the plain objects
  built by \<^verbatim>\<open>createAppError\<close> and \<^verbatim>\<open>createApiError\<close>, a string, or anything else.
\<close>

datatype thrown =
    JsError string
  | AppErrorInstance AppError
  | AppErrorObject AppError
  | ApiErrorObject ApiError
  | ThrownString string
  | ThrownOther

definition getUserFriendlyMessage :: "string \<Rightarrow> error_type \<Rightarrow> string" where
  "getUserFriendlyMessage msg t =
     (let lowerMessage = toLowerCase msg in
      case t of
        Network \<Rightarrow>
          if str_includes lowerMessage ''timeout''
          then ''Connection timed out. Please check your internet connection and try again.''
          else if str_includes lowerMessage ''network'' \<or> str_includes lowerMessage ''fetch''
          then ''Unable to connect to the internet. Please check your connection.''
          else if str_includes lowerMessage ''server''
          then ''Server is temporarily unavailable. Please try again later.''
          else ''Network error occurred. Please check your connection and try again.''
      | Storage \<Rightarrow> ''Unable to save your preferences. Please try again.''
      | Validation \<Rightarrow> ''Invalid data received. Please refresh and try again.''
      | Unknown \<Rightarrow>
          if str_includes lowerMessage ''not found''
          then ''The requested item could not be found.''
          else if str_includes lowerMessage ''unauthorized''
          then ''You are not authorized to perform this action.''
          else ''An unexpected error occurred. Please try again.'')"

definition createAppError ::
  "string \<Rightarrow> error_type \<Rightarrow> string option \<Rightarrow> bool \<Rightarrow> AppError" where
  "createAppError msg t c r =
     \<lparr>message = msg, code = c, type = t, recoverable = r,
      userMessage = getUserFriendlyMessage msg t\<rparr>"

text \<open>
  \<^verbatim>\<open>handleError\<close> calls \<^verbatim>\<open>createAppError(error.message, type)\<close>: the code is left
  undefined and \<^verbatim>\<open>recoverable\<close> takes its default, \<^verbatim>\<open>true\<close>.
\<close>

definition handleError :: "thrown \<Rightarrow> AppError" where
  "handleError error =
     (case error of
        AppErrorInstance a \<Rightarrow> a
      | JsError m \<Rightarrow>
          (let msg = toLowerCase m;
               t = (if str_includes msg ''network'' \<or> str_includes msg ''fetch'' \<or> str_includes msg ''timeout''
                    then Network
                    else if str_includes msg ''storage'' \<or> str_includes msg ''asyncstorage''
                    then Storage
                    else if str_includes msg ''invalid'' \<or> str_includes msg ''validation''
                    then Validation
                    else Unknown)
           in createAppError m t None True)
      | ThrownString s \<Rightarrow> createAppError s Unknown None True
      | _ \<Rightarrow> createAppError ''Unknown error occurred'' Unknown None True)"

definition isRecoverableError :: "thrown \<Rightarrow> bool" where
  "isRecoverableError error =
     (case error of
        JsError m \<Rightarrow>
          (let msg = toLowerCase m in
           \<not> (str_includes msg ''unauthorized'' \<or> str_includes msg ''forbidden'' \<or>
              str_includes msg ''not found'' \<or>
              (str_includes msg ''invalid'' \<and> str_includes msg ''permanent'')))
      | AppErrorInstance a \<Rightarrow>
          (let msg = toLowerCase (message a) in
           \<not> (str_includes msg ''unauthorized'' \<or> str_includes msg ''forbidden'' \<or>
              str_includes msg ''not found'' \<or>
              (str_includes msg ''invalid'' \<and> str_includes msg ''permanent'')))
      | _ \<Rightarrow> True)"

section \<open>Products\<close>

record Rating =
  rate :: number
  count :: number

record Product =
  pid :: number
  title :: string
  price :: number
  description :: string
  category :: string
  image_url :: string
  rating :: Rating

section \<open>The world the services run in\<close>

text \<open>
  The services are asynchronous functions over process-wide state. They run here one
  after the other (no interleaving) on an explicit world:
  \<^item> \<open>clock\<close> is what \<^verbatim>\<open>Date.now()\<close> returns, in milliseconds;
  \<^item> \<open>net_script\<close> scripts the transport: each \<^verbatim>\<open>fetch\<close> takes the next outcome, a
    rejection (a network failure, or the abort raised by the timeout timer) or a response;
    a transport with nothing scripted rejects;
  \<^item> \<open>items\<close> is the content of AsyncStorage and \<open>faults\<close> scripts its faults: each
    access takes the next entry, \<open>Some e\<close> rejecting with \<open>e\<close>; with nothing scripted
    the access succeeds;
  \<^item> \<open>cachedProducts\<close> and \<open>cacheTimestamp\<close> are the static cache fields of ApiService.

  A stored string is kept by what \<^verbatim>\<open>JSON.parse\<close> makes of it: \<open>JsonText j\<close> is a
  string that parses to \<open>j\<close>, \<open>PlainText s\<close> is the string \<open>s\<close>, which does not parse
  (the empty string, \<^verbatim>\<open>light\<close>, \<^verbatim>\<open>dark\<close>, \<^verbatim>\<open>not-json\<close>).
\<close>

datatype stored_text = JsonText json | PlainText string

record response =
  ok :: bool
  http_status :: nat
  statusText :: string
  body :: "thrown + json"

datatype fetch_outcome = Rejects thrown | Responds response

record world =
  clock :: int
  net_script :: "fetch_outcome list"
  items :: "string \<Rightarrow> stored_text option"
  faults :: "thrown option list"
  cachedProducts :: "Product list option"
  cacheTimestamp :: int

type_synonym 'a operation = "world \<Rightarrow> (thrown + 'a) \<times> world"

definition Date_now :: "world \<Rightarrow> int" where
  "Date_now w = clock w"

text \<open>\<^verbatim>\<open>await new Promise(resolve => setTimeout(resolve, ms))\<close>: the clock moves on.\<close>

definition sleep :: "int \<Rightarrow> world \<Rightarrow> world" where
  "sleep ms w = w\<lparr>clock := clock w + max 0 ms\<rparr>"

definition fetch :: "response operation" where
  "fetch w =
     (case net_script w of
        [] \<Rightarrow> (Inl (JsError ''Network request failed''), w)
      | Rejects e # rest \<Rightarrow> (Inl e, w\<lparr>net_script := rest\<rparr>)
      | Responds r # rest \<Rightarrow> (Inr r, w\<lparr>net_script := rest\<rparr>))"

section \<open>gracefulDegradation: retry with fallback\<close>

record 'a GracefulResult =
  success :: bool
  data :: "'a option"
  error :: "AppError option"
  fallbackUsed :: bool
  retryCount :: nat

text \<open>
  The \<^verbatim>\<open>for (let attempt = 0; attempt <= maxRetries; attempt++)\<close> loop of
  \<^verbatim>\<open>withGracefulDegradation\<close>, with its variables \<^verbatim>\<open>lastError\<close> and
  \<^verbatim>\<open>retryCount\<close>. \<open>Inr\<close> is the \<^verbatim>\<open>return\<close> inside the \<^verbatim>\<open>try\<close>; \<open>Inl\<close> is
  leaving the loop, by \<^verbatim>\<open>break\<close> or by the loop test.
\<close>

function attempt_loop ::
  "'a operation \<Rightarrow> int \<Rightarrow> int \<Rightarrow> nat \<Rightarrow> AppError option \<Rightarrow> nat \<Rightarrow> world
     \<Rightarrow> ((AppError option \<times> nat) + ('a \<times> nat)) \<times> world" where
  "attempt_loop operation maxRetries retryDelay attempt lastError retryCnt w =
     (if int attempt \<le> maxRetries then
        (case operation w of
           (Inr result, w1) \<Rightarrow> (Inr (result, attempt), w1)
         | (Inl e, w1) \<Rightarrow>
             (if \<not> recoverable (handleError e) \<or> int attempt = maxRetries
              then (Inl (Some (handleError e), attempt), w1)
              else attempt_loop operation maxRetries retryDelay (Suc attempt)
                     (Some (handleError e)) attempt
                     (if int attempt < maxRetries
                      then sleep (retryDelay * 2 ^ attempt) w1 else w1)))
      else (Inl (lastError, retryCnt), w))"
  by pat_completeness auto
termination
  by (relation "measure (\<lambda>(operation, maxRetries, retryDelay, attempt, rest).
        nat (maxRetries + 1 - int attempt))") auto

definition withGracefulDegradation ::
  "'a operation \<Rightarrow> int \<Rightarrow> int \<Rightarrow> 'a option \<Rightarrow> world \<Rightarrow> 'a GracefulResult \<times> world" where
  "withGracefulDegradation operation maxRetries retryDelay fallbackValue w =
     (case attempt_loop operation maxRetries retryDelay 0 None 0 w of
        (Inr (result, attempt), w1) \<Rightarrow>
          (\<lparr>success = True, data = Some result, error = None,
            fallbackUsed = False, retryCount = attempt\<rparr>, w1)
      | (Inl (lastError, retryCnt), w1) \<Rightarrow>
          (if fallbackValue \<noteq> None
           then (\<lparr>success = False, data = fallbackValue, error = lastError,
                  fallbackUsed = True, retryCount = retryCnt\<rparr>, w1)
           else (\<lparr>success = False, data = None, error = lastError,
                  fallbackUsed = False, retryCount = retryCnt\<rparr>, w1)))"

text \<open>
  \<^verbatim>\<open>safeFetch<any[]>\<close> is called with a fallback of another type, the cached product
  list; \<open>fetched\<close> is the union the \<^verbatim>\<open>data\<close> field then holds. The abort of the timeout
  timer is one of the rejections of the transport's script.
\<close>

datatype fetched = Raw json | Cached "Product list"

definition fetch_operation :: "(json \<Rightarrow> bool) option \<Rightarrow> fetched operation" where
  "fetch_operation validateResponse w =
     (case fetch w of
        (Inl e, w1) \<Rightarrow> (Inl e, w1)
      | (Inr r, w1) \<Rightarrow>
          (if \<not> ok r
           then (Inl (JsError (''HTTP '' @ decimal (http_status r) @ '': '' @ statusText r)), w1)
           else (case body r of
                   Inl e \<Rightarrow> (Inl e, w1)
                 | Inr d \<Rightarrow>
                     (case validateResponse of
                        Some v \<Rightarrow>
                          (if \<not> v d then (Inl (JsError ''Response validation failed''), w1)
                           else (Inr (Raw d), w1))
                      | None \<Rightarrow> (Inr (Raw d), w1)))))"

definition safeFetch ::
  "(json \<Rightarrow> bool) option \<Rightarrow> int \<Rightarrow> int \<Rightarrow> fetched option \<Rightarrow> world
     \<Rightarrow> fetched GracefulResult \<times> world" where
  "safeFetch validateResponse maxRetries retryDelay fallbackValue w =
     withGracefulDegradation (fetch_operation validateResponse)
       maxRetries retryDelay fallbackValue w"

text \<open>
  \<^verbatim>\<open>safeStorageOperation\<close> returns \<^verbatim>\<open>result.data!\<close>; \<open>None\<close> is \<^verbatim>\<open>undefined\<close>.
\<close>

definition safeStorageOperation :: "'a operation \<Rightarrow> 'a option \<Rightarrow> world \<Rightarrow> 'a option \<times> world" where
  "safeStorageOperation operation fallbackValue w =
     (case withGracefulDegradation operation 1 1000 fallbackValue w of
        (result, w1) \<Rightarrow> (data result, w1))"

section \<open>CircuitBreaker\<close>

datatype circuit_state = Closed | Open | HalfOpen

record CircuitBreaker =
  failures :: nat
  lastFailureTime :: int
  state :: circuit_state
  maxFailures :: nat
  resetTimeout :: int
  breaker_context :: string

definition new_CircuitBreaker :: "nat \<Rightarrow> int \<Rightarrow> string \<Rightarrow> CircuitBreaker" where
  "new_CircuitBreaker m t c =
     \<lparr>failures = 0, lastFailureTime = 0, state = Closed,
      maxFailures = m, resetTimeout = t, breaker_context = c\<rparr>"

definition recordFailure :: "CircuitBreaker \<Rightarrow> world \<Rightarrow> CircuitBreaker" where
  "recordFailure cb w =
     (let cb1 = cb\<lparr>failures := failures cb + 1, lastFailureTime := Date_now w\<rparr>
      in if failures cb1 \<ge> maxFailures cb1 then cb1\<lparr>state := Open\<rparr> else cb1)"

definition reset :: "CircuitBreaker \<Rightarrow> CircuitBreaker" where
  "reset cb = cb\<lparr>failures := 0, state := Closed\<rparr>"

definition execute ::
  "CircuitBreaker \<Rightarrow> 'a operation \<Rightarrow> world \<Rightarrow> (thrown + 'a) \<times> CircuitBreaker \<times> world" where
  "execute cb operation w =
     (if state cb = Open \<and> \<not> (Date_now w - lastFailureTime cb > resetTimeout cb)
      then (Inl (JsError (breaker_context cb @ '': Circuit breaker is open'')), cb, w)
      else
        (let cb1 = (if state cb = Open then cb\<lparr>state := HalfOpen\<rparr> else cb) in
         case operation w of
           (Inr result, w1) \<Rightarrow>
             (Inr result, (if state cb1 = HalfOpen then reset cb1 else cb1), w1)
         | (Inl e, w1) \<Rightarrow> (Inl e, recordFailure cb1 w1, w1)))"

section \<open>ApiService\<close>

definition MAX_RETRIES :: int where
  "MAX_RETRIES = 3"

definition RETRY_DELAY_MS :: int where
  "RETRY_DELAY_MS = 1000"

definition CACHE_DURATION :: int where
  "CACHE_DURATION = 5 * 60 * 1000"

definition createApiError :: "string \<Rightarrow> int option \<Rightarrow> string option \<Rightarrow> thrown" where
  "createApiError m s c = ApiErrorObject \<lparr>api_message = m, status = s, api_code = c\<rparr>"

definition getCachedProducts :: "world \<Rightarrow> Product list" where
  "getCachedProducts w =
     (case cachedProducts w of
        Some ps \<Rightarrow> if Date_now w - cacheTimestamp w < CACHE_DURATION then ps else []
      | None \<Rightarrow> [])"

definition setCachedProducts :: "Product list \<Rightarrow> world \<Rightarrow> world" where
  "setCachedProducts products w = w\<lparr>cachedProducts := Some products, cacheTimestamp := Date_now w\<rparr>"

definition clearCache :: "world \<Rightarrow> world" where
  "clearCache w = w\<lparr>cachedProducts := None, cacheTimestamp := 0\<rparr>"

text \<open>
  \<^verbatim>\<open>validateAndTransformProduct\<close>. The platform's \<^verbatim>\<open>new URL(url)\<close>, which decides
  \<^verbatim>\<open>isValidUrl\<close>, is a parameter.
\<close>

definition validateAndTransformProduct :: "(string \<Rightarrow> bool) \<Rightarrow> json \<Rightarrow> thrown + Product" where
  "validateAndTransformProduct isValidUrl item =
     (if falsy (Some item) \<or> typeof (Some item) \<noteq> ''object''
      then Inl (JsError ''Product must be an object'')
      else if typeof (get_prop item ''id'') \<noteq> ''number''
      then Inl (JsError ''Product id must be a number'')
      else if typeof (get_prop item ''title'') \<noteq> ''string'' \<or>
              trim (as_string (get_prop item ''title'')) = []
      then Inl (JsError ''Product title must be a non-empty string'')
      else if typeof (get_prop item ''price'') \<noteq> ''number'' \<or>
              js_lt (as_number (get_prop item ''price'')) (Fin 0)
      then Inl (JsError ''Product price must be a non-negative number'')
      else if typeof (get_prop item ''description'') \<noteq> ''string''
      then Inl (JsError ''Product description must be a string'')
      else if typeof (get_prop item ''category'') \<noteq> ''string''
      then Inl (JsError ''Product category must be a string'')
      else if typeof (get_prop item ''image'') \<noteq> ''string'' \<or>
              \<not> isValidUrl (as_string (get_prop item ''image''))
      then Inl (JsError ''Product image must be a valid URL string'')
      else if falsy (get_prop item ''rating'') \<or> typeof (get_prop item ''rating'') \<noteq> ''object''
      then Inl (JsError ''Product rating must be an object'')
      else
        (let r = as_value (get_prop item ''rating'') in
         if typeof (get_prop r ''rate'') \<noteq> ''number'' \<or>
            js_lt (as_number (get_prop r ''rate'')) (Fin 0) \<or>
            js_gt (as_number (get_prop r ''rate'')) (Fin 5)
         then Inl (JsError ''Product rating.rate must be a number between 0 and 5'')
         else if typeof (get_prop r ''count'') \<noteq> ''number'' \<or>
                 js_lt (as_number (get_prop r ''count'')) (Fin 0)
         then Inl (JsError ''Product rating.count must be a non-negative number'')
         else Inr
           \<lparr>pid = as_number (get_prop item ''id''),
            title = trim (as_string (get_prop item ''title'')),
            price = divided_by (Math_round (times (as_number (get_prop item ''price'')) 100)) 100,
            description = trim (as_string (get_prop item ''description'')),
            category = trim (as_string (get_prop item ''category'')),
            image_url = as_string (get_prop item ''image''),
            rating =
              \<lparr>rate = divided_by (Math_round (times (as_number (get_prop r ''rate'')) 10)) 10,
               count = Math_floor (as_number (get_prop r ''count''))\<rparr>\<rparr>))"

text \<open>
  \<^verbatim>\<open>transformProductData\<close>: \<open>map_items\<close> is the \<^verbatim>\<open>data.map\<close> with its
  \<^verbatim>\<open>try\<close>/\<^verbatim>\<open>catch\<close>, an entry being the product or, for \<^verbatim>\<open>null\<close>, the index and the
  error that \<^verbatim>\<open>console.warn\<close> prints; the \<^verbatim>\<open>filter\<close> keeps the products.
\<close>

fun map_items :: "(string \<Rightarrow> bool) \<Rightarrow> nat \<Rightarrow> json list \<Rightarrow> ((nat \<times> thrown) + Product) list" where
  "map_items isValidUrl index [] = []"
| "map_items isValidUrl index (item # rest) =
     (case validateAndTransformProduct isValidUrl item of
        Inr p \<Rightarrow> Inr p
      | Inl e \<Rightarrow> Inl (index, e)) # map_items isValidUrl (Suc index) rest"

definition products_of :: "((nat \<times> thrown) + Product) list \<Rightarrow> Product list" where
  "products_of ms = map projr (filter (\<lambda>m. \<not> isl m) ms)"

definition warnings_of :: "((nat \<times> thrown) + Product) list \<Rightarrow> (nat \<times> thrown) list" where
  "warnings_of ms = map projl (filter isl ms)"

definition transformProductData :: "(string \<Rightarrow> bool) \<Rightarrow> json \<Rightarrow> thrown + Product list" where
  "transformProductData isValidUrl d =
     (case d of
        JArray xs \<Rightarrow> Inr (products_of (map_items isValidUrl 0 xs))
      | _ \<Rightarrow> Inl (createApiError ''Invalid API response: expected array of products''
                  (Some 0) (Some ''INVALID_RESPONSE'')))"

definition transform_warnings :: "(string \<Rightarrow> bool) \<Rightarrow> json \<Rightarrow> (nat \<times> thrown) list" where
  "transform_warnings isValidUrl d =
     (case d of JArray xs \<Rightarrow> warnings_of (map_items isValidUrl 0 xs) | _ \<Rightarrow> [])"

text \<open>
  The \<^verbatim>\<open>validateResponse\<close> callback of \<^verbatim>\<open>fetchProducts\<close>:
  \<^verbatim>\<open>Array.isArray(data) && data.length > 0\<close>.
\<close>

definition nonempty_array :: "json \<Rightarrow> bool" where
  "nonempty_array d = (case d of JArray xs \<Rightarrow> length xs > 0 | _ \<Rightarrow> False)"

text \<open>
  Truthiness of \<^verbatim>\<open>result.data\<close> and its use as a product list. An array is truthy,
  the empty one too.
\<close>

fun truthy_data :: "fetched option \<Rightarrow> bool" where
  "truthy_data None = False"
| "truthy_data (Some (Cached ps)) = True"
| "truthy_data (Some (Raw j)) = (\<not> falsy (Some j))"

fun as_products :: "fetched option \<Rightarrow> Product list" where
  "as_products (Some (Cached ps)) = ps"
| "as_products _ = []"

fun as_raw :: "fetched option \<Rightarrow> json" where
  "as_raw (Some (Raw j)) = j"
| "as_raw _ = JNull"

text \<open>
  The operation \<^verbatim>\<open>fetchProducts\<close> hands to the circuit breaker. Its \<^verbatim>\<open>throw result.error\<close>
  throws the AppError as the plain object \<^verbatim>\<open>createAppError\<close> builds.
\<close>

definition fetchProducts_operation :: "(string \<Rightarrow> bool) \<Rightarrow> Product list operation" where
  "fetchProducts_operation isValidUrl w =
     (case safeFetch (Some nonempty_array) MAX_RETRIES RETRY_DELAY_MS
             (Some (Cached (getCachedProducts w))) w of
        (result, w1) \<Rightarrow>
          (if \<not> success result then
             (if fallbackUsed result \<and> truthy_data (data result)
              then (Inr (as_products (data result)), w1)
              else (Inl (case error result of
                           Some e \<Rightarrow> AppErrorObject e
                         | None \<Rightarrow> JsError ''Failed to fetch products''), w1))
           else
             (case transformProductData isValidUrl (as_raw (data result)) of
                Inl e \<Rightarrow> (Inl e, w1)
              | Inr transformedProducts \<Rightarrow>
                  (Inr transformedProducts, setCachedProducts transformedProducts w1))))"

definition fetchProducts ::
  "(string \<Rightarrow> bool) \<Rightarrow> CircuitBreaker \<Rightarrow> world
     \<Rightarrow> (thrown + Product list) \<times> CircuitBreaker \<times> world" where
  "fetchProducts isValidUrl circuitBreaker w =
     (case execute circuitBreaker (fetchProducts_operation isValidUrl) w of
        (Inr products, cb1, w1) \<Rightarrow> (Inr products, cb1, w1)
      | (Inl e, cb1, w1) \<Rightarrow>
          (if length (getCachedProducts w1) > 0
           then (Inr (getCachedProducts w1), cb1, w1)
           else
             (let appError = handleError e in
              (Inl (createApiError (userMessage appError) (Some 0)
                      (Some (case code appError of
                               None \<Rightarrow> ''API_UNAVAILABLE''
                             | Some c \<Rightarrow> if c = [] then ''API_UNAVAILABLE'' else c))),
               cb1, w1))))"

section \<open>StorageService\<close>

subsection \<open>AsyncStorage and JSON\<close>

definition AsyncStorage_getItem :: "string \<Rightarrow> stored_text option operation" where
  "AsyncStorage_getItem key w =
     (case faults w of
        [] \<Rightarrow> (Inr (items w key), w)
      | None # rest \<Rightarrow> (Inr (items w key), w\<lparr>faults := rest\<rparr>)
      | Some e # rest \<Rightarrow> (Inl e, w\<lparr>faults := rest\<rparr>))"

definition AsyncStorage_setItem :: "string \<Rightarrow> stored_text \<Rightarrow> unit operation" where
  "AsyncStorage_setItem key v w =
     (case faults w of
        [] \<Rightarrow> (Inr (), w\<lparr>items := (items w)(key := Some v)\<rparr>)
      | None # rest \<Rightarrow> (Inr (), w\<lparr>items := (items w)(key := Some v), faults := rest\<rparr>)
      | Some e # rest \<Rightarrow> (Inl e, w\<lparr>faults := rest\<rparr>))"

fun JSON_parse :: "stored_text \<Rightarrow> thrown + json" where
  "JSON_parse (JsonText j) = Inr j"
| "JSON_parse (PlainText s) = Inl (JsError ''JSON Parse error'')"

text \<open>
  \<^verbatim>\<open>JSON.stringify\<close> of an array of numbers: a number that is not finite is written
  as \<^verbatim>\<open>null\<close>.
\<close>

definition JSON_stringify :: "number list \<Rightarrow> stored_text" where
  "JSON_stringify xs =
     JsonText (JArray (map (\<lambda>n. case n of Fin r \<Rightarrow> JNumber (Fin r) | _ \<Rightarrow> JNull) xs))"

text \<open>\<^verbatim>\<open>!value\<close> for what \<^verbatim>\<open>getItem\<close> returns: \<^verbatim>\<open>null\<close> or the empty string.\<close>

fun no_item :: "stored_text option \<Rightarrow> bool" where
  "no_item None = True"
| "no_item (Some (PlainText s)) = (s = [])"
| "no_item (Some (JsonText j)) = False"

definition FAVORITES_KEY :: string where
  "FAVORITES_KEY = ''@ProductCatalog:favorites''"

definition THEME_KEY :: string where
  "THEME_KEY = ''@ProductCatalog:theme''"

subsection \<open>Favorites\<close>

definition valid_favorite :: "json \<Rightarrow> bool" where
  "valid_favorite v =
     (typeof (Some v) = ''number'' \<and> \<not> isNaN (as_number (Some v)) \<and>
      js_gt (as_number (Some v)) (Fin 0))"

definition getFavorites_operation :: "number list operation" where
  "getFavorites_operation w =
     (case AsyncStorage_getItem FAVORITES_KEY w of
        (Inl e, w1) \<Rightarrow> (Inl e, w1)
      | (Inr favoritesJson, w1) \<Rightarrow>
          (if no_item favoritesJson then (Inr [], w1)
           else (case JSON_parse (the favoritesJson) of
                   Inl e \<Rightarrow> (Inl e, w1)
                 | Inr (JArray favorites) \<Rightarrow>
                     (Inr (map (\<lambda>v. as_number (Some v)) (filter valid_favorite favorites)), w1)
                 | Inr _ \<Rightarrow>
                     (Inl (JsError ''Invalid favorites data format in storage''), w1))))"

definition getFavorites :: "world \<Rightarrow> number list option \<times> world" where
  "getFavorites w = safeStorageOperation getFavorites_operation (Some []) w"

definition invalid_product_id :: "number \<Rightarrow> bool" where
  "invalid_product_id productId = (isNaN productId \<or> js_le productId (Fin 0))"

definition addFavorite_operation :: "number \<Rightarrow> unit operation" where
  "addFavorite_operation productId w =
     (case getFavorites w of
        (None, w1) \<Rightarrow> (Inl (JsError ''TypeError''), w1)
      | (Some currentFavorites, w1) \<Rightarrow>
          (if productId \<in> set currentFavorites then (Inr (), w1)
           else AsyncStorage_setItem FAVORITES_KEY
                  (JSON_stringify (currentFavorites @ [productId])) w1))"

definition addFavorite :: "number \<Rightarrow> unit operation" where
  "addFavorite productId w =
     (if invalid_product_id productId
      then (Inl (JsError (userMessage (handleError (JsError ''Invalid product ID provided'')))), w)
      else (case safeStorageOperation (addFavorite_operation productId) None w of
              (r, w1) \<Rightarrow> (Inr (), w1)))"

definition removeFavorite_operation :: "number \<Rightarrow> unit operation" where
  "removeFavorite_operation productId w =
     (case getFavorites w of
        (None, w1) \<Rightarrow> (Inl (JsError ''TypeError''), w1)
      | (Some currentFavorites, w1) \<Rightarrow>
          AsyncStorage_setItem FAVORITES_KEY
            (JSON_stringify (filter (\<lambda>i. strict_neq i productId) currentFavorites)) w1)"

definition removeFavorite :: "number \<Rightarrow> unit operation" where
  "removeFavorite productId w =
     (if invalid_product_id productId
      then (Inl (JsError (userMessage (handleError (JsError ''Invalid product ID provided'')))), w)
      else (case safeStorageOperation (removeFavorite_operation productId) None w of
              (r, w1) \<Rightarrow> (Inr (), w1)))"

subsection \<open>Theme\<close>

definition getTheme_operation :: "string operation" where
  "getTheme_operation w =
     (case AsyncStorage_getItem THEME_KEY w of
        (Inl e, w1) \<Rightarrow> (Inl e, w1)
      | (Inr themeValue, w1) \<Rightarrow>
          (if no_item themeValue then (Inr ''light'', w1)
           else if themeValue = Some (PlainText ''light'') \<or> themeValue = Some (PlainText ''dark'')
           then (Inr (case themeValue of Some (PlainText t) \<Rightarrow> t | _ \<Rightarrow> []), w1)
           else (Inl (JsError ''Invalid theme value in storage''), w1)))"

definition getTheme :: "world \<Rightarrow> string option \<times> world" where
  "getTheme w = safeStorageOperation getTheme_operation (Some ''light'') w"


section \<open>AppContext: persisting the favorites\<close>

datatype write_call = AddFavorite number | RemoveFavorite number

text \<open>
  The two \<^verbatim>\<open>for\<close> loops of \<^verbatim>\<open>saveFavorites\<close>. A rejection leaves the loop (it is caught
  by the enclosing \<^verbatim>\<open>try\<close>); the calls issued so far are recorded.
\<close>

fun add_each :: "number list \<Rightarrow> world \<Rightarrow> (thrown + unit) \<times> write_call list \<times> world" where
  "add_each [] w = (Inr (), [], w)"
| "add_each (favoriteId # rest) w =
     (case addFavorite favoriteId w of
        (Inl e, w1) \<Rightarrow> (Inl e, [AddFavorite favoriteId], w1)
      | (Inr u, w1) \<Rightarrow>
          (case add_each rest w1 of
             (r, cs, w2) \<Rightarrow> (r, AddFavorite favoriteId # cs, w2)))"

fun remove_each :: "number list \<Rightarrow> world \<Rightarrow> (thrown + unit) \<times> write_call list \<times> world" where
  "remove_each [] w = (Inr (), [], w)"
| "remove_each (favoriteId # rest) w =
     (case removeFavorite favoriteId w of
        (Inl e, w1) \<Rightarrow> (Inl e, [RemoveFavorite favoriteId], w1)
      | (Inr u, w1) \<Rightarrow>
          (case remove_each rest w1 of
             (r, cs, w2) \<Rightarrow> (r, RemoveFavorite favoriteId # cs, w2)))"

record save_report =
  favoritesToAdd :: "number list"
  favoritesToRemove :: "number list"
  calls :: "write_call list"
  caught :: "thrown option"

text \<open>
  \<^verbatim>\<open>saveFavorites\<close>, the effect that runs when \<^verbatim>\<open>state.favorites\<close> or
  \<^verbatim>\<open>state.products.length\<close> changes. It returns nothing; the report is what it
  computed and which StorageService calls it made.
\<close>

definition saveFavorites :: "number list \<Rightarrow> nat \<Rightarrow> world \<Rightarrow> save_report \<times> world" where
  "saveFavorites favorites products_length w =
     (if length favorites > 0 \<or> products_length > 0 then
        (case getFavorites w of
           (None, w1) \<Rightarrow>
             (\<lparr>favoritesToAdd = [], favoritesToRemove = [], calls = [],
               caught = Some (JsError ''TypeError'')\<rparr>, w1)
         | (Some currentStoredFavorites, w1) \<Rightarrow>
             (let toAdd = filter (\<lambda>i. i \<notin> set currentStoredFavorites) favorites;
                  toRemove = filter (\<lambda>i. i \<notin> set favorites) currentStoredFavorites
              in case add_each toAdd w1 of
                   (Inl e, cs, w2) \<Rightarrow>
                     (\<lparr>favoritesToAdd = toAdd, favoritesToRemove = toRemove,
                       calls = cs, caught = Some e\<rparr>, w2)
                 | (Inr u, cs, w2) \<Rightarrow>
                     (case remove_each toRemove w2 of
                        (Inl e, cs2, w3) \<Rightarrow>
                          (\<lparr>favoritesToAdd = toAdd, favoritesToRemove = toRemove,
                            calls = cs @ cs2, caught = Some e\<rparr>, w3)
                      | (Inr u2, cs2, w3) \<Rightarrow>
                          (\<lparr>favoritesToAdd = toAdd, favoritesToRemove = toRemove,
                            calls = cs @ cs2, caught = None\<rparr>, w3))))
      else (\<lparr>favoritesToAdd = [], favoritesToRemove = [], calls = [], caught = None\<rparr>, w))"

section \<open>Runs, invariants and example inputs\<close>

text \<open>
  What the properties below are stated with. \<open>execute_all\<close> is a run of calls through
  one breaker, each call with what happens before it (time passing, say) and its operation;
  it returns the breaker and the world after the run and what each call returned.
  \<open>short_circuits\<close> is the test of \<^verbatim>\<open>execute\<close> under which an open breaker rejects a call
  without invoking its operation, and \<open>last_failure\<close> is the time at which the last
  operation that was invoked in a run failed, \<^verbatim>\<open>Date.now()\<close> when it threw, if any did.
  \<open>breaker_ok\<close> is the state
  of a breaker between two calls: closed below its threshold, or open at or above it.
  \<open>rejected\<close> is a record that \<^verbatim>\<open>validateAndTransformProduct\<close> throws on.
  \<open>stored_favorites\<close> is the list a read of the favorites key yields when storage does not
  fault, and \<open>fin_pos\<close> a number that is finite and positive. The remaining definitions are
  concrete inputs; \<open>example_isValidUrl\<close> stands for the platform's URL parser in them.
  The price of \<open>sample_jacket\<close>, \<open>3011782250804019 / 2 ^ 50\<close>, is the double that the
  decimal 2.675 is read as.
\<close>

definition short_circuits :: "CircuitBreaker \<Rightarrow> world \<Rightarrow> bool" where
  "short_circuits cb w =
     (state cb = Open \<and> \<not> (Date_now w - lastFailureTime cb > resetTimeout cb))"

fun execute_all ::
  "CircuitBreaker \<Rightarrow> ((world \<Rightarrow> world) \<times> 'a operation) list \<Rightarrow> world
     \<Rightarrow> CircuitBreaker \<times> world \<times> (thrown + 'a) list" where
  "execute_all cb [] w = (cb, w, [])"
| "execute_all cb ((before, operation) # rest) w =
     (case execute cb operation (before w) of
        (r, cb1, w1) \<Rightarrow>
          (case execute_all cb1 rest w1 of (cb2, w2, rs) \<Rightarrow> (cb2, w2, r # rs)))"

fun last_failure ::
  "CircuitBreaker \<Rightarrow> ((world \<Rightarrow> world) \<times> 'a operation) list \<Rightarrow> world \<Rightarrow> int option" where
  "last_failure cb [] w = None"
| "last_failure cb ((before, operation) # rest) w =
     (case execute cb operation (before w) of
        (r, cb1, w1) \<Rightarrow>
          (case last_failure cb1 rest w1 of
             Some t \<Rightarrow> Some t
           | None \<Rightarrow>
               if \<not> short_circuits cb (before w) \<and> isl (fst (operation (before w)))
               then Some (Date_now (snd (operation (before w)))) else None))"

definition breaker_ok :: "CircuitBreaker \<Rightarrow> bool" where
  "breaker_ok cb =
     ((state cb = Closed \<and> failures cb < maxFailures cb) \<or>
      (state cb = Open \<and> maxFailures cb \<le> failures cb))"

definition circuit_open_error :: "CircuitBreaker \<Rightarrow> thrown" where
  "circuit_open_error cb = JsError (breaker_context cb @ '': Circuit breaker is open'')"

definition failing_operation :: "unit operation" where
  "failing_operation w = (Inl (JsError ''Network request failed''), w)"

definition succeeding_operation :: "unit operation" where
  "succeeding_operation w = (Inr (), w)"

definition quiet_world :: world where
  "quiet_world = \<lparr>clock = 0, net_script = [], items = (\<lambda>k. None), faults = [],
     cachedProducts = None, cacheTimestamp = 0\<rparr>"

definition api_breaker :: CircuitBreaker where
  "api_breaker = new_CircuitBreaker 5 60000 ''API Service''"

definition five_failures :: "((world \<Rightarrow> world) \<times> fetched operation) list" where
  "five_failures = replicate 5 (sleep 1000, fetch_operation None)"

definition opened_breaker :: CircuitBreaker where
  "opened_breaker = \<lparr>failures = 5, lastFailureTime = 0, state = Open,
     maxFailures = 5, resetTimeout = 60000, breaker_context = ''API Service''\<rparr>"

definition world_at :: "int \<Rightarrow> world" where
  "world_at t = quiet_world\<lparr>clock := t\<rparr>"

definition example_isValidUrl :: "string \<Rightarrow> bool" where
  "example_isValidUrl url = (take 8 url = ''https://'' \<and> length url > 8)"

definition rejected :: "(string \<Rightarrow> bool) \<Rightarrow> json \<Rightarrow> bool" where
  "rejected isValidUrl item = isl (validateAndTransformProduct isValidUrl item)"

definition product_json :: "number \<Rightarrow> string \<Rightarrow> number \<Rightarrow> number \<Rightarrow> number \<Rightarrow> json" where
  "product_json i t p r c =
     JObject [(''id'', JNumber i), (''title'', JString t), (''price'', JNumber p),
              (''description'', JString ''A product ''), (''category'', JString ''misc''),
              (''image'', JString ''https://fakestoreapi.com/img/1.jpg''),
              (''rating'', JObject [(''rate'', JNumber r), (''count'', JNumber c)])]"

definition sample_backpack :: json where
  "sample_backpack = product_json (Fin 1) '' Backpack '' (Fin (219 / 2)) (Fin (7 / 2)) (Fin 120)"

definition sample_shirt :: json where
  "sample_shirt = product_json (Fin 2) ''Shirt'' (Fin (-5)) (Fin 4) (Fin 10)"

definition sample_jacket :: json where
  "sample_jacket =
     product_json (Fin 3) ''Jacket'' (Fin (3011782250804019 / 1125899906842624)) (Fin (19 / 4))
       (Fin 500)"

definition sample_payload :: "json list" where
  "sample_payload = [sample_backpack, sample_shirt, sample_jacket]"





definition transport_down :: world where
  "transport_down =
     quiet_world\<lparr>net_script := replicate 4 (Rejects (JsError ''Network request failed''))\<rparr>"

definition not_found_response :: response where
  "not_found_response =
     \<lparr>ok = False, http_status = 404, statusText = ''Not Found'', body = Inr JNull\<rparr>"

definition not_found_world :: world where
  "not_found_world = quiet_world\<lparr>net_script := replicate 6 (Responds not_found_response)\<rparr>"

definition stored_favorites :: "world \<Rightarrow> number list" where
  "stored_favorites w =
     (case items w FAVORITES_KEY of
        Some (JsonText (JArray xs)) \<Rightarrow> map (\<lambda>v. as_number (Some v)) (filter valid_favorite xs)
      | _ \<Rightarrow> [])"

definition fin_pos :: "number \<Rightarrow> bool" where
  "fin_pos n = (case n of Fin q \<Rightarrow> 0 < q | _ \<Rightarrow> False)"

definition favorites_world :: "stored_text \<Rightarrow> world" where
  "favorites_world v = quiet_world\<lparr>items := (\<lambda>k. if k = FAVORITES_KEY then Some v else None)\<rparr>"

definition mixed_favorites :: "json list" where
  "mixed_favorites =
     [JNumber (Fin 1), JString ''2'', JNumber (Fin (-3)), JNull, JNumber (Fin 4), JNumber (Fin 0)]"

definition whole_number :: "number \<Rightarrow> bool" where
  "whole_number n = (case n of Fin q \<Rightarrow> of_int \<lfloor>q\<rfloor> = q | _ \<Rightarrow> False)"

definition storage_fault :: thrown where
  "storage_fault = JsError ''AsyncStorage: disk is full''"



definition synced_world :: world where
  "synced_world = favorites_world (JsonText (JArray [JNumber (Fin 1), JNumber (Fin 2)]))"

definition flaky_read_world :: world where
  "flaky_read_world =
     quiet_world\<lparr>faults := [None, None, None, Some storage_fault, Some storage_fault]\<rparr>"

section \<open>Verified properties\<close>

subsection \<open>Rounding to a double\<close>














subsection \<open>CircuitBreaker\<close>

lemma breaker_ok_new: "0 < m \<Longrightarrow> breaker_ok (new_CircuitBreaker m t c)"
  by (simp add: breaker_ok_def new_CircuitBreaker_def)

lemma execute_rejects_when_open:
  assumes "state cb = Open" and "Date_now w - lastFailureTime cb \<le> resetTimeout cb"
  shows "execute cb operation w = (Inl (circuit_open_error cb), cb, w)"
  using assms by (simp add: execute_def circuit_open_error_def)

lemma execute_preserves_breaker_ok:
  assumes "breaker_ok cb" and "0 < maxFailures cb"
  shows "breaker_ok (fst (snd (execute cb operation w))) \<and>
         maxFailures (fst (snd (execute cb operation w))) = maxFailures cb"
  using assms
  by (auto simp: breaker_ok_def execute_def recordFailure_def reset_def Let_def
           split: prod.splits sum.splits)

lemma failed_execute_step:
  assumes ok: "breaker_ok cb" and ex: "execute cb operation w = (Inl e, cb1, w1)"
  shows "breaker_ok cb1 \<and> maxFailures cb1 = maxFailures cb \<and> resetTimeout cb1 = resetTimeout cb \<and>
         breaker_context cb1 = breaker_context cb \<and>
         (state cb1 = Open \<or> (state cb1 = Closed \<and> failures cb1 = Suc (failures cb))) \<and>
         lastFailureTime cb1 =
           (if \<not> short_circuits cb w \<and> isl (fst (operation w))
            then Date_now (snd (operation w)) else lastFailureTime cb)"
  using ok ex
  by (auto simp: breaker_ok_def execute_def recordFailure_def reset_def short_circuits_def Let_def
           split: if_splits prod.splits sum.splits)

lemma failed_run:
  assumes "breaker_ok cb" and "execute_all cb run w = (cb1, w1, results)"
    and "\<forall>r \<in> set results. isl r"
  shows "breaker_ok cb1 \<and> maxFailures cb1 = maxFailures cb \<and> resetTimeout cb1 = resetTimeout cb \<and>
         breaker_context cb1 = breaker_context cb \<and>
         (state cb1 = Open \<or> (state cb1 = Closed \<and> failures cb1 = failures cb + length run)) \<and>
         lastFailureTime cb1 =
           (case last_failure cb run w of Some t \<Rightarrow> t | None \<Rightarrow> lastFailureTime cb)"
  using assms
proof (induction run arbitrary: cb w results)
  case Nil
  then show ?case by (auto simp: breaker_ok_def)
next
  case (Cons c run)
  obtain before operation where c: "c = (before, operation)" by (cases c)
  obtain r cb2 w2 where ex: "execute cb operation (before w) = (r, cb2, w2)"
    by (metis prod.collapse)
  obtain rs where rest: "execute_all cb2 run w2 = (cb1, w1, rs)" and res: "results = r # rs"
    using Cons.prems(2) c ex by (auto split: prod.splits)
  obtain e where r: "r = Inl e" using Cons.prems(3) res by (cases r) simp_all
  have all: "\<forall>r \<in> set rs. isl r" using Cons.prems(3) res by simp
  note step = failed_execute_step[OF Cons.prems(1) ex[unfolded r]]
  have ok2: "breaker_ok cb2" using step by simp
  note ih = Cons.IH[OF ok2 rest all]
  have lf: "last_failure cb (c # run) w =
      (case last_failure cb2 run w2 of
         Some t \<Rightarrow> Some t
       | None \<Rightarrow> if \<not> short_circuits cb (before w) \<and> isl (fst (operation (before w)))
                 then Some (Date_now (snd (operation (before w)))) else None)"
    using c ex by simp
  have t: "lastFailureTime cb1 =
      (case last_failure cb (c # run) w of Some t \<Rightarrow> t | None \<Rightarrow> lastFailureTime cb)"
    using ih step unfolding lf by (auto split: option.splits)
  from step ih t show ?case
    by (auto simp: breaker_ok_def)
qed

text \<open>
  Claim C3. Take a breaker between two calls (\<open>breaker_ok\<close>: closed below its
  threshold, or open at or above it; the fresh breaker is so and \<^verbatim>\<open>execute\<close> keeps it
  so). After a run of \<^verbatim>\<open>execute\<close> calls, at least as many as the failure threshold (5 for
  the API breaker), each of which returned a failure, whatever its operation does elsewhere,
  the breaker is open, and the failure time it holds is the time at which the last
  operation invoked in the run failed (the time it held before, if the open breaker turned
  every call away). A further call, made while less than the reset timeout has passed since
  that time, rejects with the circuit-open error, leaving breaker and world as they were,
  whatever the wrapped operation is: the operation is not invoked.
\<close>

theorem breaker_opens_after_threshold_failures:
  assumes "breaker_ok cb"
    and "execute_all cb run w = (cb1, w1, results)"
    and "\<forall>r \<in> set results. isl r"
    and "maxFailures cb \<le> length run"
  shows "state cb1 = Open \<and>
         lastFailureTime cb1 =
           (case last_failure cb run w of Some t \<Rightarrow> t | None \<Rightarrow> lastFailureTime cb) \<and>
         (\<forall>operation w2. Date_now w2 - lastFailureTime cb1 < resetTimeout cb \<longrightarrow>
            execute cb1 operation w2 = (Inl (circuit_open_error cb), cb1, w2))"
proof -
  note r = failed_run[OF assms(1,2,3)]
  have st: "state cb1 = Open" using r assms(4) by (auto simp: breaker_ok_def)
  have c: "circuit_open_error cb1 = circuit_open_error cb"
    using r by (simp add: circuit_open_error_def)
  have "execute cb1 operation w2 = (Inl (circuit_open_error cb), cb1, w2)"
    if "Date_now w2 - lastFailureTime cb1 < resetTimeout cb" for w2 and operation :: "'c operation"
    using execute_rejects_when_open[OF st, of w2 operation] that r c by simp
  with st r show ?thesis by blast
qed

theorem breaker_opens_after_threshold_failures_witness:
  "execute_all api_breaker five_failures quiet_world =
     (opened_breaker\<lparr>lastFailureTime := 5000\<rparr>, world_at 5000,
      replicate 5 (Inl (JsError ''Network request failed''))) \<and>
   last_failure api_breaker five_failures quiet_world = Some 5000 \<and>
   execute (opened_breaker\<lparr>lastFailureTime := 5000\<rparr>) succeeding_operation (world_at 64999) =
     (Inl (circuit_open_error api_breaker), opened_breaker\<lparr>lastFailureTime := 5000\<rparr>, world_at 64999)"
proof -
  have ok: "breaker_ok api_breaker"
    by (simp add: api_breaker_def breaker_ok_def new_CircuitBreaker_def)
  have run: "execute_all api_breaker five_failures quiet_world =
     (opened_breaker\<lparr>lastFailureTime := 5000\<rparr>, world_at 5000,
      replicate 5 (Inl (JsError ''Network request failed'')))"
    by (simp add: five_failures_def api_breaker_def new_CircuitBreaker_def quiet_world_def
          execute_def fetch_operation_def fetch_def sleep_def recordFailure_def Date_now_def
          opened_breaker_def world_at_def eval_nat_numeral)
  have fails: "\<forall>r \<in> set (replicate 5 (Inl (JsError ''Network request failed'') :: thrown + fetched)). isl r"
    by simp
  have len: "maxFailures api_breaker \<le> length five_failures"
    by (simp add: api_breaker_def five_failures_def new_CircuitBreaker_def)
  have lf: "last_failure api_breaker five_failures quiet_world = Some 5000"
    by code_simp
  have early: "Date_now (world_at 64999) - lastFailureTime (opened_breaker\<lparr>lastFailureTime := 5000\<rparr>)
      < resetTimeout api_breaker"
    by (simp add: world_at_def Date_now_def api_breaker_def new_CircuitBreaker_def)
  show ?thesis
    using breaker_opens_after_threshold_failures[OF ok run fails len] early run lf
    by blast
qed

text \<open>
  Claim C4, as amended. For an open breaker (at or above its threshold, as every open
  breaker between two calls is): when strictly more than the reset timeout has passed
  since the last failure, \<^verbatim>\<open>execute\<close> invokes the operation once; on success the
  breaker is closed with failure count 0, on failure it is open again, with the count
  incremented and the failure time refreshed. When the elapsed time is at most the reset
  timeout, exactly equal included, the call rejects with the circuit-open error and the
  operation is not invoked.
\<close>

theorem open_breaker_probe:
  assumes "state cb = Open" and "maxFailures cb \<le> failures cb"
  shows "(Date_now w - lastFailureTime cb > resetTimeout cb \<longrightarrow>
            execute cb operation w =
              (case operation w of
                 (Inr v, w1) \<Rightarrow> (Inr v, cb\<lparr>failures := 0, state := Closed\<rparr>, w1)
               | (Inl e, w1) \<Rightarrow>
                   (Inl e, cb\<lparr>failures := failures cb + 1, lastFailureTime := Date_now w1,
                              state := Open\<rparr>, w1))) \<and>
         (Date_now w - lastFailureTime cb \<le> resetTimeout cb \<longrightarrow>
            execute cb operation w = (Inl (circuit_open_error cb), cb, w))"
  using assms
  by (auto simp: execute_def recordFailure_def reset_def circuit_open_error_def Let_def
           split: prod.splits sum.splits)

theorem open_breaker_probe_witness:
  "execute opened_breaker succeeding_operation (world_at 60001) =
     (Inr (), opened_breaker\<lparr>failures := 0, state := Closed\<rparr>, world_at 60001) \<and>
   execute opened_breaker failing_operation (world_at 60001) =
     (Inl (JsError ''Network request failed''),
      opened_breaker\<lparr>failures := 6, lastFailureTime := 60001, state := Open\<rparr>, world_at 60001) \<and>
   execute opened_breaker succeeding_operation (world_at 59999) =
     (Inl (circuit_open_error opened_breaker), opened_breaker, world_at 59999)"
proof -
  have st: "state opened_breaker = Open" by (simp add: opened_breaker_def)
  have inv: "maxFailures opened_breaker \<le> failures opened_breaker" by (simp add: opened_breaker_def)
  have late: "Date_now (world_at 60001) - lastFailureTime opened_breaker > resetTimeout opened_breaker"
    by (simp add: opened_breaker_def world_at_def Date_now_def quiet_world_def)
  have early: "Date_now (world_at 59999) - lastFailureTime opened_breaker \<le> resetTimeout opened_breaker"
    by (simp add: opened_breaker_def world_at_def Date_now_def quiet_world_def)
  have f: "failures opened_breaker + 1 = 6" by (simp add: opened_breaker_def)
  have d: "Date_now (world_at 60001) = 60001" by (simp add: world_at_def Date_now_def)
  show ?thesis
    using open_breaker_probe[OF st inv, of "world_at 60001" succeeding_operation]
      open_breaker_probe[OF st inv, of "world_at 60001" failing_operation]
      open_breaker_probe[OF st inv, of "world_at 59999" succeeding_operation]
      late early f d
    by (simp add: succeeding_operation_def failing_operation_def)
qed

text \<open>
  Claim C4 as stated fails when the elapsed time equals the reset timeout: the test is
  \<^verbatim>\<open>Date.now() - this.lastFailureTime > this.resetTimeout\<close>, so the call is rejected.
\<close>

theorem probe_at_exact_timeout_counterexample:
  "state opened_breaker = Open \<and>
   Date_now (world_at 60000) - lastFailureTime opened_breaker = resetTimeout opened_breaker \<and>
   execute opened_breaker succeeding_operation (world_at 60000) =
     (Inl (circuit_open_error opened_breaker), opened_breaker, world_at 60000)"
  by (simp add: execute_def opened_breaker_def world_at_def Date_now_def quiet_world_def
        circuit_open_error_def)

subsection \<open>Normalization of the payload\<close>

lemma products_of_map_items:
  "products_of (map_items v i xs) =
     map (\<lambda>x. projr (validateAndTransformProduct v x)) (filter (\<lambda>x. \<not> rejected v x) xs)"
  by (induction xs arbitrary: i) (auto simp: products_of_def rejected_def split: sum.splits)

lemma length_warnings_of_map_items:
  "length (warnings_of (map_items v i xs)) = length (filter (rejected v) xs)"
  by (induction xs arbitrary: i) (auto simp: warnings_of_def rejected_def split: sum.splits)

lemma length_filter_not: "length (filter (\<lambda>x. \<not> P x) xs) = length xs - length (filter P xs)"
  by (induction xs) (auto simp: Suc_diff_le)

lemma accepted_iff:
  "(\<not> rejected v item) =
     (\<not> falsy (Some item) \<and> typeof (Some item) = ''object'' \<and>
      typeof (get_prop item ''id'') = ''number'' \<and>
      typeof (get_prop item ''title'') = ''string'' \<and>
      trim (as_string (get_prop item ''title'')) \<noteq> [] \<and>
      typeof (get_prop item ''price'') = ''number'' \<and>
      \<not> js_lt (as_number (get_prop item ''price'')) (Fin 0) \<and>
      typeof (get_prop item ''description'') = ''string'' \<and>
      typeof (get_prop item ''category'') = ''string'' \<and>
      typeof (get_prop item ''image'') = ''string'' \<and>
      v (as_string (get_prop item ''image'')) \<and>
      \<not> falsy (get_prop item ''rating'') \<and> typeof (get_prop item ''rating'') = ''object'' \<and>
      typeof (get_prop (as_value (get_prop item ''rating'')) ''rate'') = ''number'' \<and>
      \<not> js_lt (as_number (get_prop (as_value (get_prop item ''rating'')) ''rate'')) (Fin 0) \<and>
      \<not> js_gt (as_number (get_prop (as_value (get_prop item ''rating'')) ''rate'')) (Fin 5) \<and>
      typeof (get_prop (as_value (get_prop item ''rating'')) ''count'') = ''number'' \<and>
      \<not> js_lt (as_number (get_prop (as_value (get_prop item ''rating'')) ''count'')) (Fin 0))"
  by (auto simp: rejected_def validateAndTransformProduct_def Let_def)


lemma sample_backpack_accepted: "\<not> rejected example_isValidUrl sample_backpack"
  unfolding accepted_iff by code_simp

lemma sample_shirt_rejected: "rejected example_isValidUrl sample_shirt"
proof -
  have "(\<not> rejected example_isValidUrl sample_shirt) = False"
    unfolding accepted_iff by code_simp
  then show ?thesis by simp
qed

lemma sample_jacket_accepted: "\<not> rejected example_isValidUrl sample_jacket"
  unfolding accepted_iff by code_simp

text \<open>
  Claim C6. For a raw payload array of N records of which K are rejected by
  \<^verbatim>\<open>validateAndTransformProduct\<close>, \<^verbatim>\<open>transformProductData\<close> returns (it does not
  throw) a list of N - K products, and prints K warnings.
\<close>

theorem invalid_records_dropped_count:
  "\<exists>ps. transformProductData isValidUrl (JArray raw) = Inr ps \<and>
        length ps = length raw - length (filter (rejected isValidUrl) raw) \<and>
        length (transform_warnings isValidUrl (JArray raw)) =
          length (filter (rejected isValidUrl) raw)"
  by (simp add: transformProductData_def transform_warnings_def products_of_map_items
        length_warnings_of_map_items length_filter_not)

theorem invalid_records_dropped_count_witness:
  "length sample_payload = 3 \<and> length (filter (rejected example_isValidUrl) sample_payload) = 1 \<and>
   (\<exists>ps. transformProductData example_isValidUrl (JArray sample_payload) = Inr ps \<and> length ps = 2) \<and>
   length (transform_warnings example_isValidUrl (JArray sample_payload)) = 1"
proof -
  have n: "length sample_payload = 3" by (simp add: sample_payload_def)
  have k: "length (filter (rejected example_isValidUrl) sample_payload) = 1"
    by (simp add: sample_payload_def sample_backpack_accepted sample_shirt_rejected
          sample_jacket_accepted)
  show ?thesis
    using invalid_records_dropped_count[of example_isValidUrl sample_payload] n k by auto
qed

subsection \<open>The product cache\<close>

text \<open>
  Claim C7. The cache read returns the cached list when an entry exists and its age,
  \<^verbatim>\<open>Date.now() - cacheTimestamp\<close>, is strictly below the TTL of 5 minutes (300000 ms);
  with no entry, or at an age of the TTL or more, it returns the absent value, which is
  the empty list. The read does not change the world: a stale entry stays stored. So a
  list cached at one time is read back at a later time \<open>t\<close> exactly when
  \<open>t\<close> is less than 300000 ms later.
\<close>

theorem cache_read_respects_ttl:
  "CACHE_DURATION = 300000 \<and>
   getCachedProducts w =
     (case cachedProducts w of
        None \<Rightarrow> []
      | Some ps \<Rightarrow> if Date_now w - cacheTimestamp w < CACHE_DURATION then ps else []) \<and>
   getCachedProducts ((setCachedProducts ps w)\<lparr>clock := t\<rparr>) =
     (if t - clock w < 300000 then ps else []) \<and>
   cachedProducts ((setCachedProducts ps w)\<lparr>clock := t\<rparr>) = Some ps \<and>
   getCachedProducts (clearCache w) = []"
  by (simp add: getCachedProducts_def setCachedProducts_def clearCache_def CACHE_DURATION_def
        Date_now_def split: option.splits)

subsection \<open>What a normalized product satisfies\<close>










subsection \<open>fetchProducts: retries and fallback\<close>

text \<open>
  Whenever the fetch fails, whatever the world, the operation handed to the breaker
  resolves with what \<^verbatim>\<open>getCachedProducts()\<close> returned when it started, the empty list when
  nothing valid is cached; it does not throw, and a closed breaker stays as it is.
\<close>

lemma failed_fetch_resolves_with_cache_read:
  assumes "\<not> success (fst (safeFetch (Some nonempty_array) MAX_RETRIES RETRY_DELAY_MS
                              (Some (Cached (getCachedProducts w))) w))"
  shows "fst (fetchProducts_operation isValidUrl w) = Inr (getCachedProducts w)"
  using assms
  by (auto simp add: fetchProducts_operation_def safeFetch_def withGracefulDegradation_def
           simp del: attempt_loop.simps split: prod.splits sum.splits)

lemma closed_breaker_never_sees_failed_fetch:
  assumes "state cb = Closed"
    and "\<not> success (fst (safeFetch (Some nonempty_array) MAX_RETRIES RETRY_DELAY_MS
                              (Some (Cached (getCachedProducts w))) w))"
  shows "fst (fetchProducts isValidUrl cb w) = Inr (getCachedProducts w) \<and>
         fst (snd (fetchProducts isValidUrl cb w)) = cb"
proof -
  obtain r w1 where op: "fetchProducts_operation isValidUrl w = (r, w1)"
    by (cases "fetchProducts_operation isValidUrl w")
  with failed_fetch_resolves_with_cache_read[OF assms(2), of isValidUrl]
  have r: "r = Inr (getCachedProducts w)" by simp
  show ?thesis
    using assms(1) op r by (simp add: fetchProducts_def execute_def)
qed

text \<open>
  \<^verbatim>\<open>handleError\<close> marks every \<^verbatim>\<open>Error\<close> it classifies as recoverable, whatever its
  message.
\<close>

lemma recoverable_JsError: "recoverable (handleError (JsError m))"
  by (simp add: handleError_def createAppError_def Let_def)

text \<open>
  Claim C1 at its failing input. The transport rejects all four attempts, each rejection
  being classified as a network error, and the cache holds nothing. \<^verbatim>\<open>fetchProducts\<close>
  resolves with the empty list instead of rejecting: the fallback handed to
  \<^verbatim>\<open>safeFetch\<close> is \<^verbatim>\<open>getCachedProducts()\<close>, which is the empty array and not
  \<^verbatim>\<open>undefined\<close> when nothing is cached, and the test \<^verbatim>\<open>result.fallbackUsed && result.data\<close>
  holds of an empty array. The breaker records no failure.
\<close>

theorem fetchProducts_resolves_empty_when_transport_down:
  "cachedProducts transport_down = None \<and>
   length (net_script transport_down) = 4 \<and>
   type (handleError (JsError ''Network request failed'')) = Network \<and>
   fst (fetchProducts example_isValidUrl api_breaker transport_down) = Inr [] \<and>
   net_script (snd (snd (fetchProducts example_isValidUrl api_breaker transport_down))) = [] \<and>
   failures (fst (snd (fetchProducts example_isValidUrl api_breaker transport_down))) = 0"
  by code_simp

text \<open>
  Claim C2 at its failing input. The server answers 404 to every request. The error
  \<^verbatim>\<open>HTTP 404: Not Found\<close> is one \<^verbatim>\<open>isRecoverableError\<close> classifies as not recoverable,
  yet \<^verbatim>\<open>handleError\<close> marks it recoverable, and \<^verbatim>\<open>safeFetch\<close> makes all four
  attempts: of six scripted responses two are left and the retry count is 3.
\<close>

theorem not_found_error_is_retried:
  "fst (fetch_operation (Some nonempty_array) not_found_world) =
     Inl (JsError ''HTTP 404: Not Found'') \<and>
   isRecoverableError (JsError ''HTTP 404: Not Found'') = False \<and>
   recoverable (handleError (JsError ''HTTP 404: Not Found'')) = True \<and>
   retryCount (fst (safeFetch (Some nonempty_array) MAX_RETRIES RETRY_DELAY_MS None
                      not_found_world)) = 3 \<and>
   length (net_script not_found_world) = 6 \<and>
   length (net_script (snd (safeFetch (Some nonempty_array) MAX_RETRIES RETRY_DELAY_MS None
                              not_found_world))) = 2"
  by code_simp

subsection \<open>Reading the favorites\<close>

lemma safeStorageOperation_cases:
  "safeStorageOperation operation fallbackValue w =
     (case operation w of
        (Inr r, w1) \<Rightarrow> (Some r, w1)
      | (Inl e, w1) \<Rightarrow>
          if \<not> recoverable (handleError e) then (fallbackValue, w1)
          else (case operation (sleep 1000 w1) of
                  (Inr r, w2) \<Rightarrow> (Some r, w2)
                | (Inl e2, w2) \<Rightarrow> (fallbackValue, w2)))"
  by (cases fallbackValue)
     (auto simp: safeStorageOperation_def withGracefulDegradation_def
           split: prod.splits sum.splits)

lemma sleep_fields [simp]:
  "items (sleep ms w) = items w" "faults (sleep ms w) = faults w"
  by (simp_all add: sleep_def)

lemma getFavorites_operation_result:
  "\<exists>w1. items w1 = items w \<and>
        (getFavorites_operation w = (Inr (stored_favorites w), w1) \<or>
         (\<exists>e. getFavorites_operation w = (Inl e, w1)))"
  by (auto simp: getFavorites_operation_def AsyncStorage_getItem_def stored_favorites_def
           split: list.splits option.splits stored_text.splits json.splits)

lemma getFavorites_operation_no_fault:
  assumes "faults w = []"
  shows "getFavorites_operation w = (Inr (stored_favorites w), w) \<or>
         (stored_favorites w = [] \<and> (\<exists>m. getFavorites_operation w = (Inl (JsError m), w)))"
  using assms
  by (auto simp: getFavorites_operation_def AsyncStorage_getItem_def stored_favorites_def
           split: list.splits option.splits stored_text.splits json.splits)

lemma stored_favorites_sleep [simp]: "stored_favorites (sleep ms w) = stored_favorites w"
  by (simp add: stored_favorites_def)

lemma getFavorites_result:
  "fst (getFavorites w) = Some (stored_favorites w) \<or> fst (getFavorites w) = Some []"
proof -
  obtain w1 where w1: "items w1 = items w"
    "getFavorites_operation w = (Inr (stored_favorites w), w1) \<or>
     (\<exists>e. getFavorites_operation w = (Inl e, w1))"
    using getFavorites_operation_result[of w] by blast
  obtain w2 where w2:
    "getFavorites_operation (sleep 1000 w1) = (Inr (stored_favorites (sleep 1000 w1)), w2) \<or>
     (\<exists>e. getFavorites_operation (sleep 1000 w1) = (Inl e, w2))"
    using getFavorites_operation_result[of "sleep 1000 w1"] by blast
  have s: "stored_favorites (sleep 1000 w1) = stored_favorites w"
    using w1(1) by (simp add: stored_favorites_def)
  from w1(2) w2 s show ?thesis
    by (auto simp: getFavorites_def safeStorageOperation_cases)
qed

lemma getFavorites_no_fault:
  assumes "faults w = []"
  shows "\<exists>w1. getFavorites w = (Some (stored_favorites w), w1) \<and> faults w1 = [] \<and> items w1 = items w"
proof -
  have f: "faults (sleep 1000 w) = []" using assms by simp
  from getFavorites_operation_no_fault[OF assms] getFavorites_operation_no_fault[OF f]
  show ?thesis
    using assms
    by (auto simp: getFavorites_def safeStorageOperation_cases recoverable_JsError)
qed

lemma valid_favorite_iff:
  "valid_favorite v = (v = JNumber PosInf \<or> (\<exists>q. 0 < q \<and> v = JNumber (Fin q)))"
proof (cases v)
  case (JNumber n)
  then show ?thesis
    by (cases n) (auto simp: valid_favorite_def isNaN_def js_gt_def)
qed (auto simp: valid_favorite_def)

lemma getFavorites_of_array:
  assumes "items w FAVORITES_KEY = Some (JsonText (JArray xs))"
  shows "fst (getFavorites w) =
     (case faults w of
        [] \<Rightarrow> Some (map (\<lambda>v. as_number (Some v)) (filter valid_favorite xs))
      | None # rest \<Rightarrow> Some (map (\<lambda>v. as_number (Some v)) (filter valid_favorite xs))
      | Some e1 # rest \<Rightarrow>
          if \<not> recoverable (handleError e1) then Some []
          else (case rest of
                  Some e2 # rest2 \<Rightarrow> Some []
                | _ \<Rightarrow> Some (map (\<lambda>v. as_number (Some v)) (filter valid_favorite xs))))"
  using assms
  by (auto simp: getFavorites_def safeStorageOperation_cases getFavorites_operation_def
        AsyncStorage_getItem_def
      split: list.splits option.splits)

lemma getFavorites_elsewise_empty:
  assumes "\<forall>xs. items w FAVORITES_KEY \<noteq> Some (JsonText (JArray xs))"
  shows "fst (getFavorites w) = Some []"
  using getFavorites_result[of w] assms
  by (auto simp: stored_favorites_def split: option.splits stored_text.splits json.splits)

text \<open>
  Claim C8, as amended. \<^verbatim>\<open>getFavorites\<close> always returns a list, whatever is stored and
  whatever faults the storage raises. With nothing stored, with a stored string that is not
  JSON (such as \<^verbatim>\<open>not-json\<close>) or with stored JSON that is not an array, the list is empty.
  With a stored array the list holds, in order, the elements that pass the filter, when the
  first read does not fault, and when it faults and the second read, the one retry, does
  not; the list is empty when both reads fault (and when the first fault is an error
  marked as not recoverable, which is not retried). The filter keeps an element exactly
  when it is a number, not NaN, and greater than 0: a positive fraction, and Infinity, pass.
\<close>

theorem getFavorites_never_throws_and_filters:
  "(\<exists>ids. fst (getFavorites w) = Some ids) \<and>
   (items w FAVORITES_KEY = None \<longrightarrow> fst (getFavorites w) = Some []) \<and>
   (\<forall>s. items w FAVORITES_KEY = Some (PlainText s) \<longrightarrow> fst (getFavorites w) = Some []) \<and>
   (\<forall>j. items w FAVORITES_KEY = Some (JsonText j) \<longrightarrow> (\<forall>xs. j \<noteq> JArray xs) \<longrightarrow>
        fst (getFavorites w) = Some []) \<and>
   (\<forall>xs. items w FAVORITES_KEY = Some (JsonText (JArray xs)) \<longrightarrow>
        fst (getFavorites w) =
          (case faults w of
             [] \<Rightarrow> Some (map (\<lambda>v. as_number (Some v)) (filter valid_favorite xs))
           | None # rest \<Rightarrow> Some (map (\<lambda>v. as_number (Some v)) (filter valid_favorite xs))
           | Some e1 # rest \<Rightarrow>
               if \<not> recoverable (handleError e1) then Some []
               else (case rest of
                       Some e2 # rest2 \<Rightarrow> Some []
                     | _ \<Rightarrow> Some (map (\<lambda>v. as_number (Some v)) (filter valid_favorite xs))))) \<and>
   (\<forall>v. valid_favorite v = (v = JNumber PosInf \<or> (\<exists>q. 0 < q \<and> v = JNumber (Fin q))))"
proof -
  have a: "\<exists>ids. fst (getFavorites w) = Some ids"
  proof (cases "\<exists>xs. items w FAVORITES_KEY = Some (JsonText (JArray xs))")
    case True
    then obtain xs where "items w FAVORITES_KEY = Some (JsonText (JArray xs))" by blast
    from getFavorites_of_array[OF this] show ?thesis
      by (auto split: list.splits option.splits)
  next
    case False
    then show ?thesis using getFavorites_elsewise_empty[of w] by simp
  qed
  have b: "items w FAVORITES_KEY = None \<longrightarrow> fst (getFavorites w) = Some []"
    using getFavorites_elsewise_empty[of w] by simp
  have c: "\<forall>s. items w FAVORITES_KEY = Some (PlainText s) \<longrightarrow> fst (getFavorites w) = Some []"
    using getFavorites_elsewise_empty[of w] by simp
  have d: "\<forall>j. items w FAVORITES_KEY = Some (JsonText j) \<longrightarrow> (\<forall>xs. j \<noteq> JArray xs) \<longrightarrow>
        fst (getFavorites w) = Some []"
    using getFavorites_elsewise_empty[of w] by simp
  from a b c d getFavorites_of_array[of w] valid_favorite_iff show ?thesis by blast
qed

theorem getFavorites_never_throws_and_filters_witness:
  "fst (getFavorites (favorites_world (PlainText ''not-json''))) = Some [] \<and>
   fst (getFavorites (favorites_world (JsonText (JObject [])))) = Some [] \<and>
   fst (getFavorites (favorites_world (JsonText (JArray mixed_favorites)))) = Some [Fin 1, Fin 4] \<and>
   fst (getFavorites (favorites_world (JsonText (JArray mixed_favorites))
          \<lparr>faults := [Some storage_fault]\<rparr>)) = Some [Fin 1, Fin 4] \<and>
   fst (getFavorites (favorites_world (JsonText (JArray mixed_favorites))
          \<lparr>faults := [Some storage_fault, Some storage_fault]\<rparr>)) = Some []"
proof -
  have i1: "items (favorites_world (PlainText ''not-json'')) FAVORITES_KEY = Some (PlainText ''not-json'')"
    by (simp add: favorites_world_def)
  have i2: "items (favorites_world (JsonText (JObject []))) FAVORITES_KEY = Some (JsonText (JObject []))"
    by (simp add: favorites_world_def)
  have i3: "items (favorites_world (JsonText (JArray mixed_favorites)) \<lparr>faults := fs\<rparr>) FAVORITES_KEY =
      Some (JsonText (JArray mixed_favorites))" for fs
    by (simp add: favorites_world_def)
  have i0: "items (favorites_world (JsonText (JArray mixed_favorites))) FAVORITES_KEY =
      Some (JsonText (JArray mixed_favorites))"
    by (simp add: favorites_world_def)
  have f0: "faults (favorites_world (JsonText (JArray mixed_favorites))) = []"
    by (simp add: favorites_world_def quiet_world_def)
  have v: "map (\<lambda>v. as_number (Some v)) (filter valid_favorite mixed_favorites) = [Fin 1, Fin 4]"
    by code_simp
  have r: "recoverable (handleError storage_fault)"
    by (simp add: storage_fault_def recoverable_JsError)
  show ?thesis
    using getFavorites_never_throws_and_filters[of "favorites_world (PlainText ''not-json'')"]
      getFavorites_never_throws_and_filters[of "favorites_world (JsonText (JObject []))"]
      getFavorites_never_throws_and_filters[of "favorites_world (JsonText (JArray mixed_favorites))"]
      getFavorites_never_throws_and_filters[of "favorites_world (JsonText (JArray mixed_favorites)) \<lparr>faults := [Some storage_fault]\<rparr>"]
      getFavorites_never_throws_and_filters[of "favorites_world (JsonText (JArray mixed_favorites)) \<lparr>faults := [Some storage_fault, Some storage_fault]\<rparr>"]
      i0 i1 i2 i3 f0 v r
    by simp
qed

text \<open>
  Claim C8 as stated fails on the filter: of the stored array \<^verbatim>\<open>[1.5, 2]\<close> the element 1.5,
  which is not an integer, is returned.
\<close>

theorem fractional_favorite_kept_counterexample:
  "fst (getFavorites (favorites_world (JsonText (JArray [JNumber (Fin (3 / 2)), JNumber (Fin 2)])))) =
     Some [Fin (3 / 2), Fin 2] \<and>
   whole_number (Fin (3 / 2)) = False"
  by code_simp

subsection \<open>Mutations of the store\<close>

lemma invalid_product_id_iff:
  "invalid_product_id n = (n = NaN \<or> n = NegInf \<or> (\<exists>q. q \<le> 0 \<and> n = Fin q))"
  by (cases n) (auto simp: invalid_product_id_def isNaN_def js_le_def)





subsection \<open>Reconciliation of the favorites\<close>

lemma stored_favorites_after_write:
  assumes "items w FAVORITES_KEY = Some (JSON_stringify ys)"
  shows "stored_favorites w = filter fin_pos ys"
proof -
  have "map (\<lambda>v. as_number (Some v))
          (filter valid_favorite (map (\<lambda>n. case n of Fin r \<Rightarrow> JNumber (Fin r) | _ \<Rightarrow> JNull) zs)) =
        filter fin_pos zs" for zs
  proof (induction zs)
    case Nil
    then show ?case by simp
  next
    case (Cons z zs)
    then show ?case
      by (cases z) (auto simp: valid_favorite_iff fin_pos_def)
  qed
  with assms show ?thesis
    by (simp add: stored_favorites_def JSON_stringify_def)
qed

lemma stored_favorites_valid:
  assumes "n \<in> set (stored_favorites w)"
  shows "n \<noteq> NaN \<and> \<not> invalid_product_id n"
proof -
  have "m \<noteq> NaN \<and> \<not> invalid_product_id m"
    if "m \<in> set (map (\<lambda>v. as_number (Some v)) (filter valid_favorite xs))" for m xs
    using that by (auto simp: valid_favorite_iff invalid_product_id_iff)
  with assms show ?thesis
    by (auto simp: stored_favorites_def split: option.splits stored_text.splits json.splits)
qed

lemma stored_favorites_cong:
  "items w1 = items w \<Longrightarrow> stored_favorites w1 = stored_favorites w"
  by (simp add: stored_favorites_def)

lemma addFavorite_no_fault:
  assumes f: "faults w = []" and v: "fin_pos x"
  shows "\<exists>w1. addFavorite x w = (Inr (), w1) \<and> faults w1 = [] \<and>
              set (stored_favorites w1) =
                (if x \<in> set (stored_favorites w) then set (stored_favorites w)
                 else insert x {n \<in> set (stored_favorites w). fin_pos n})"
proof -
  obtain wa where g: "getFavorites w = (Some (stored_favorites w), wa)"
    and fa: "faults wa = []" and ia: "items wa = items w"
    using getFavorites_no_fault[OF f] by blast
  have nv: "\<not> invalid_product_id x"
    using v by (cases x) (auto simp: fin_pos_def invalid_product_id_iff)
  show ?thesis
  proof (cases "x \<in> set (stored_favorites w)")
    case True
    then have op: "addFavorite_operation x w = (Inr (), wa)"
      using g by (simp add: addFavorite_operation_def)
    have "addFavorite x w = (Inr (), wa)"
      using nv op by (simp add: addFavorite_def safeStorageOperation_cases)
    with True fa stored_favorites_cong[OF ia] show ?thesis
      by simp
  next
    case False
    define wb where
      "wb = wa\<lparr>items := (items wa)(FAVORITES_KEY := Some (JSON_stringify (stored_favorites w @ [x])))\<rparr>"
    have op: "addFavorite_operation x w = (Inr (), wb)"
      using g False fa by (simp add: addFavorite_operation_def AsyncStorage_setItem_def wb_def)
    have res: "addFavorite x w = (Inr (), wb)"
      using nv op by (simp add: addFavorite_def safeStorageOperation_cases)
    have "items wb FAVORITES_KEY = Some (JSON_stringify (stored_favorites w @ [x]))"
      by (simp add: wb_def)
    from stored_favorites_after_write[OF this]
    have "set (stored_favorites wb) = insert x {n \<in> set (stored_favorites w). fin_pos n}"
      using v by auto
    moreover have "faults wb = []" using fa by (simp add: wb_def)
    ultimately show ?thesis using res False by simp
  qed
qed

lemma removeFavorite_no_fault:
  assumes f: "faults w = []" and v: "\<not> invalid_product_id y"
  shows "\<exists>w1. removeFavorite y w = (Inr (), w1) \<and> faults w1 = [] \<and>
              set (stored_favorites w1) = {n \<in> set (stored_favorites w). fin_pos n \<and> n \<noteq> y}"
proof -
  obtain wa where g: "getFavorites w = (Some (stored_favorites w), wa)"
    and fa: "faults wa = []" and ia: "items wa = items w"
    using getFavorites_no_fault[OF f] by blast
  define wb where
    "wb = wa\<lparr>items := (items wa)(FAVORITES_KEY :=
        Some (JSON_stringify (filter (\<lambda>i. strict_neq i y) (stored_favorites w))))\<rparr>"
  have op: "removeFavorite_operation y w = (Inr (), wb)"
    using g fa by (simp add: removeFavorite_operation_def AsyncStorage_setItem_def wb_def)
  have res: "removeFavorite y w = (Inr (), wb)"
    using v op by (simp add: removeFavorite_def safeStorageOperation_cases)
  have "items wb FAVORITES_KEY =
      Some (JSON_stringify (filter (\<lambda>i. strict_neq i y) (stored_favorites w)))"
    by (simp add: wb_def)
  from stored_favorites_after_write[OF this]
  have "set (stored_favorites wb) = {n \<in> set (stored_favorites w). fin_pos n \<and> strict_neq n y}"
    by auto
  moreover have "strict_neq n y = (n \<noteq> y)" if "n \<in> set (stored_favorites w)" for n
    using stored_favorites_valid[OF that] v
    by (auto simp: strict_neq_def invalid_product_id_def isNaN_def)
  ultimately have "set (stored_favorites wb) = {n \<in> set (stored_favorites w). fin_pos n \<and> n \<noteq> y}"
    by auto
  moreover have "faults wb = []" using fa by (simp add: wb_def)
  ultimately show ?thesis using res by simp
qed

lemma add_each_no_fault:
  assumes "faults w = []" and "\<forall>x \<in> set xs. fin_pos x"
  shows "\<exists>cs w1. add_each xs w = (Inr (), cs, w1) \<and> faults w1 = [] \<and>
           {n \<in> set (stored_favorites w). fin_pos n} \<union> set xs \<subseteq> set (stored_favorites w1) \<and>
           set (stored_favorites w1) \<subseteq> set (stored_favorites w) \<union> set xs \<and>
           (xs = [] \<longrightarrow> cs = [] \<and> w1 = w)"
  using assms
proof (induction xs arbitrary: w)
  case Nil
  then show ?case by auto
next
  case (Cons x xs)
  from Cons.prems have fx: "fin_pos x" and fxs: "\<forall>x \<in> set xs. fin_pos x" by simp_all
  obtain wa where a: "addFavorite x w = (Inr (), wa)" and fa: "faults wa = []"
    and sa: "set (stored_favorites wa) =
                (if x \<in> set (stored_favorites w) then set (stored_favorites w)
                 else insert x {n \<in> set (stored_favorites w). fin_pos n})"
    using addFavorite_no_fault[OF Cons.prems(1) fx] by blast
  obtain cs w1 where r: "add_each xs wa = (Inr (), cs, w1)" and f1: "faults w1 = []"
    and lo: "{n \<in> set (stored_favorites wa). fin_pos n} \<union> set xs \<subseteq> set (stored_favorites w1)"
    and hi: "set (stored_favorites w1) \<subseteq> set (stored_favorites wa) \<union> set xs"
    using Cons.IH[OF fa fxs] by blast
  have "add_each (x # xs) w = (Inr (), AddFavorite x # cs, w1)"
    using a r by simp
  moreover have "{n \<in> set (stored_favorites w). fin_pos n} \<union> set (x # xs) \<subseteq> set (stored_favorites w1)"
    using lo sa fx by (auto split: if_splits)
  moreover have "set (stored_favorites w1) \<subseteq> set (stored_favorites w) \<union> set (x # xs)"
    using hi sa by (auto split: if_splits)
  ultimately show ?case using f1 by simp
qed

lemma remove_each_no_fault:
  assumes "faults w = []" and "\<forall>y \<in> set ys. \<not> invalid_product_id y"
  shows "\<exists>cs w1. remove_each ys w = (Inr (), cs, w1) \<and> faults w1 = [] \<and>
           {n \<in> set (stored_favorites w). fin_pos n} - set ys \<subseteq> set (stored_favorites w1) \<and>
           set (stored_favorites w1) \<subseteq> set (stored_favorites w) - set ys \<and>
           (ys = [] \<longrightarrow> cs = [] \<and> w1 = w)"
  using assms
proof (induction ys arbitrary: w)
  case Nil
  then show ?case by auto
next
  case (Cons y ys)
  from Cons.prems have vy: "\<not> invalid_product_id y" and vys: "\<forall>y \<in> set ys. \<not> invalid_product_id y"
    by simp_all
  obtain wa where a: "removeFavorite y w = (Inr (), wa)" and fa: "faults wa = []"
    and sa: "set (stored_favorites wa) = {n \<in> set (stored_favorites w). fin_pos n \<and> n \<noteq> y}"
    using removeFavorite_no_fault[OF Cons.prems(1) vy] by blast
  obtain cs w1 where r: "remove_each ys wa = (Inr (), cs, w1)" and f1: "faults w1 = []"
    and lo: "{n \<in> set (stored_favorites wa). fin_pos n} - set ys \<subseteq> set (stored_favorites w1)"
    and hi: "set (stored_favorites w1) \<subseteq> set (stored_favorites wa) - set ys"
    using Cons.IH[OF fa vys] by blast
  have "remove_each (y # ys) w = (Inr (), RemoveFavorite y # cs, w1)"
    using a r by simp
  moreover have "{n \<in> set (stored_favorites w). fin_pos n} - set (y # ys) \<subseteq> set (stored_favorites w1)"
    using lo sa by auto
  moreover have "set (stored_favorites w1) \<subseteq> set (stored_favorites w) - set (y # ys)"
    using hi sa by auto
  ultimately show ?case using f1 by simp
qed

lemma saveFavorites_no_fault:
  assumes f: "faults w = []" and v: "\<forall>x \<in> set favorites. fin_pos x"
  shows "\<exists>r1 w1. saveFavorites favorites n w = (r1, w1) \<and> faults w1 = [] \<and> caught r1 = None \<and>
           (length favorites > 0 \<or> n > 0 \<longrightarrow> set (stored_favorites w1) = set favorites) \<and>
           (set (stored_favorites w) = set favorites \<longrightarrow>
              favoritesToAdd r1 = [] \<and> favoritesToRemove r1 = [] \<and> calls r1 = [] \<and>
              items w1 = items w)"
proof (cases "length favorites > 0 \<or> n > 0")
  case False
  then show ?thesis using f by (simp add: saveFavorites_def)
next
  case True
  obtain wa where g: "getFavorites w = (Some (stored_favorites w), wa)"
    and fa: "faults wa = []" and ia: "items wa = items w"
    using getFavorites_no_fault[OF f] by blast
  have sa: "stored_favorites wa = stored_favorites w"
    using ia by (rule stored_favorites_cong)
  define toAdd where "toAdd = filter (\<lambda>i. i \<notin> set (stored_favorites w)) favorites"
  define toRemove where "toRemove = filter (\<lambda>i. i \<notin> set favorites) (stored_favorites w)"
  have va: "\<forall>x \<in> set toAdd. fin_pos x" using v by (simp add: toAdd_def)
  have vr: "\<forall>y \<in> set toRemove. \<not> invalid_product_id y"
    using stored_favorites_valid by (auto simp: toRemove_def)
  obtain cs wb where ab: "add_each toAdd wa = (Inr (), cs, wb)" and fb: "faults wb = []"
    and lob: "{n \<in> set (stored_favorites wa). fin_pos n} \<union> set toAdd \<subseteq> set (stored_favorites wb)"
    and hib: "set (stored_favorites wb) \<subseteq> set (stored_favorites wa) \<union> set toAdd"
    and eb: "toAdd = [] \<longrightarrow> cs = [] \<and> wb = wa"
    using add_each_no_fault[OF fa va] by blast
  obtain cs2 wc where rc: "remove_each toRemove wb = (Inr (), cs2, wc)" and fc: "faults wc = []"
    and loc: "{n \<in> set (stored_favorites wb). fin_pos n} - set toRemove \<subseteq> set (stored_favorites wc)"
    and hic: "set (stored_favorites wc) \<subseteq> set (stored_favorites wb) - set toRemove"
    and ec: "toRemove = [] \<longrightarrow> cs2 = [] \<and> wc = wb"
    using remove_each_no_fault[OF fb vr] by blast
  define R where
    "R = \<lparr>favoritesToAdd = toAdd, favoritesToRemove = toRemove, calls = cs @ cs2, caught = None\<rparr>"
  have res: "saveFavorites favorites n w = (R, wc)"
    using True g ab rc by (simp add: saveFavorites_def toAdd_def toRemove_def Let_def R_def)
  have sub: "set (stored_favorites wc) \<subseteq> set favorites"
    using hic hib sa by (auto simp: toAdd_def toRemove_def)
  have sup: "set favorites \<subseteq> set (stored_favorites wc)"
  proof
    fix x assume x: "x \<in> set favorites"
    then have fx: "fin_pos x" using v by simp
    have "x \<in> set (stored_favorites wb)"
      using lob x fx sa by (cases "x \<in> set (stored_favorites w)") (auto simp: toAdd_def)
    moreover have "x \<notin> set toRemove" using x by (simp add: toRemove_def)
    ultimately show "x \<in> set (stored_favorites wc)" using loc fx by auto
  qed
  have p2: "caught R = None" by (simp add: R_def)
  have p3: "length favorites > 0 \<or> n > 0 \<longrightarrow> set (stored_favorites wc) = set favorites"
    using sub sup by blast
  have p4: "set (stored_favorites w) = set favorites \<longrightarrow>
              favoritesToAdd R = [] \<and> favoritesToRemove R = [] \<and> calls R = [] \<and>
              items wc = items w"
  proof
    assume m: "set (stored_favorites w) = set favorites"
    have ta: "toAdd = []" using m by (simp add: toAdd_def)
    have tr: "toRemove = []" using m by (simp add: toRemove_def)
    from ta eb have "cs = []" and "wb = wa" by simp_all
    moreover from tr ec have "cs2 = []" and "wc = wb" by simp_all
    ultimately show "favoritesToAdd R = [] \<and> favoritesToRemove R = [] \<and> calls R = [] \<and>
              items wc = items w"
      using ta tr ia by (simp add: R_def)
  qed
  from res fc p2 p3 p4 show ?thesis by blast
qed

lemma saveFavorites_nothing_loaded:
  assumes "\<not> (length favorites > 0 \<or> n > 0)"
  shows "saveFavorites favorites n w =
           (\<lparr>favoritesToAdd = [], favoritesToRemove = [], calls = [], caught = None\<rparr>, w)"
  using assms by (simp add: saveFavorites_def)

text \<open>
  Claim C9, as amended. For every in-memory list of favorites that are positive finite
  numbers, every number of loaded products and every storage content, when no storage
  access faults: the first run of \<^verbatim>\<open>saveFavorites\<close> completes without an error, and a
  second run with the same favorites computes an empty add list and an empty remove list,
  makes no \<^verbatim>\<open>addFavorite\<close> or \<^verbatim>\<open>removeFavorite\<close> call and leaves the stored items as
  they are.
\<close>

theorem reconciliation_idempotent_without_faults:
  assumes "faults w = []" and "\<forall>x \<in> set favorites. fin_pos x"
  shows "caught (fst (saveFavorites favorites n w)) = None \<and>
         favoritesToAdd (fst (saveFavorites favorites n (snd (saveFavorites favorites n w)))) = [] \<and>
         favoritesToRemove (fst (saveFavorites favorites n (snd (saveFavorites favorites n w)))) = [] \<and>
         calls (fst (saveFavorites favorites n (snd (saveFavorites favorites n w)))) = [] \<and>
         items (snd (saveFavorites favorites n (snd (saveFavorites favorites n w)))) =
           items (snd (saveFavorites favorites n w))"
proof (cases "length favorites > 0 \<or> n > 0")
  case True
  obtain r1 w1 where r1: "saveFavorites favorites n w = (r1, w1)" and f1: "faults w1 = []"
    and c1: "caught r1 = None"
    and s1: "length favorites > 0 \<or> n > 0 \<longrightarrow> set (stored_favorites w1) = set favorites"
    using saveFavorites_no_fault[OF assms, of n] by blast
  from s1 True have m: "set (stored_favorites w1) = set favorites" by (rule mp)
  obtain r2 w2 where r2: "saveFavorites favorites n w1 = (r2, w2)"
    and e2: "set (stored_favorites w1) = set favorites \<longrightarrow>
               favoritesToAdd r2 = [] \<and> favoritesToRemove r2 = [] \<and> calls r2 = [] \<and>
               items w2 = items w1"
    using saveFavorites_no_fault[OF f1 assms(2), of n] by blast
  from e2 m have "favoritesToAdd r2 = [] \<and> favoritesToRemove r2 = [] \<and> calls r2 = [] \<and>
               items w2 = items w1" by (rule mp)
  with r1 c1 r2 show ?thesis by simp
next
  case False
  show ?thesis
    by (simp add: saveFavorites_nothing_loaded[OF False])
qed

theorem reconciliation_idempotent_without_faults_witness:
  "caught (fst (saveFavorites [Fin 1, Fin 3] 2 synced_world)) = None \<and>
   favoritesToAdd (fst (saveFavorites [Fin 1, Fin 3] 2
      (snd (saveFavorites [Fin 1, Fin 3] 2 synced_world)))) = [] \<and>
   favoritesToRemove (fst (saveFavorites [Fin 1, Fin 3] 2
      (snd (saveFavorites [Fin 1, Fin 3] 2 synced_world)))) = [] \<and>
   calls (fst (saveFavorites [Fin 1, Fin 3] 2
      (snd (saveFavorites [Fin 1, Fin 3] 2 synced_world)))) = [] \<and>
   items (snd (saveFavorites [Fin 1, Fin 3] 2
      (snd (saveFavorites [Fin 1, Fin 3] 2 synced_world)))) =
     items (snd (saveFavorites [Fin 1, Fin 3] 2 synced_world))"
proof -
  have h1: "faults synced_world = []"
    by (simp add: synced_world_def favorites_world_def quiet_world_def)
  have h2: "\<forall>x \<in> set [Fin 1, Fin 3]. fin_pos x"
    by (simp add: fin_pos_def)
  show ?thesis
    by (rule reconciliation_idempotent_without_faults[OF h1 h2])
qed

text \<open>
  Claim C9 as stated fails when the read of the second run faults. Here the first run
  meets no fault, adds favorite 1 and leaves storage equal to memory; in the second run
  both attempts of the read fault, \<^verbatim>\<open>getFavorites\<close> falls back to the empty list, and
  favorite 1 is computed as an addition and \<^verbatim>\<open>addFavorite(1)\<close> is called again.
  It also fails, with no fault at all, for a favorite that is not finite: Infinity passes
  the validation of \<^verbatim>\<open>addFavorite\<close>, is written as \<^verbatim>\<open>null\<close>, is filtered out on the
  next read, and is added again by the second run.
\<close>

theorem faulted_read_repeats_adds_counterexample:
  "caught (fst (saveFavorites [Fin 1] 1 flaky_read_world)) = None \<and>
   calls (fst (saveFavorites [Fin 1] 1 flaky_read_world)) = [AddFavorite (Fin 1)] \<and>
   stored_favorites (snd (saveFavorites [Fin 1] 1 flaky_read_world)) = [Fin 1] \<and>
   favoritesToAdd (fst (saveFavorites [Fin 1] 1 (snd (saveFavorites [Fin 1] 1 flaky_read_world)))) =
     [Fin 1] \<and>
   calls (fst (saveFavorites [Fin 1] 1 (snd (saveFavorites [Fin 1] 1 flaky_read_world)))) =
     [AddFavorite (Fin 1)] \<and>
   faults quiet_world = [] \<and>
   caught (fst (saveFavorites [PosInf] 1 quiet_world)) = None \<and>
   calls (fst (saveFavorites [PosInf] 1 (snd (saveFavorites [PosInf] 1 quiet_world)))) =
     [AddFavorite PosInf]"
  by code_simp

end
